theory Spec2Isabelle
  imports Main "HOL-Library.AList"
begin

section \<open>Python values\<close>

text \<open>
  The quiz core of \<^verbatim>\<open>app_gui.py\<close> works on decoded JSON: dynamically typed values.
  A value is one of Python's \<^verbatim>\<open>None\<close>, \<^verbatim>\<open>bool\<close>, \<^verbatim>\<open>int\<close>, \<^verbatim>\<open>float\<close>, \<^verbatim>\<open>str\<close>,
  \<^verbatim>\<open>list\<close> and \<^verbatim>\<open>dict\<close> (with string keys, as \<^verbatim>\<open>json.loads\<close> builds them).

  \<^item> A \<^verbatim>\<open>str\<close> is a sequence of code points. The model has the code points
    U+0000 to U+00FF: a \<open>char\<close> is the code point of that number (Latin-1).
  \<^item> A \<^verbatim>\<open>float\<close> is kept as its \<^verbatim>\<open>repr\<close> (\<open>''1.5''\<close>, \<open>''1e+16''\<close>, \<open>''nan''\<close>): the code
    only ever tests a float for truth and prints it. The zeros are \<open>''0.0''\<close> and \<open>''-0.0''\<close>.
  \<^item> A \<^verbatim>\<open>dict\<close> is its list of items in insertion order; a key that appears twice is
    read at its first item (\<open>map_of\<close>), and \<open>AList.clearjunk\<close> gives the items that count.
\<close>

datatype py_error =
  AttributeError | TypeError | ValueError | RuntimeError | IndexError | KeyError | OSError
  | TclError

datatype json =
    JNull
  | JBool bool
  | JInt int
  | JFloat string
  | JStr string
  | JList "json list"
  | JDict "(string \<times> json) list"

subsection \<open>Characters\<close>

definition cp :: "char \<Rightarrow> nat" where
  "cp c = of_char c"

text \<open>\<^verbatim>\<open>str.isspace\<close>, \<^verbatim>\<open>str.strip\<close> and the pattern \<^verbatim>\<open>\s\<close>: tab to carriage return, the
  separators U+001C to U+001F, space, U+0085 and U+00A0.\<close>

definition py_isspace :: "char \<Rightarrow> bool" where
  "py_isspace c = (let n = cp c in
     (9 \<le> n \<and> n \<le> 13) \<or> (28 \<le> n \<and> n \<le> 32) \<or> n = 133 \<or> n = 160)"

text \<open>The pattern \<^verbatim>\<open>\d\<close> and \<^verbatim>\<open>str.isdecimal\<close>: the decimal digits, here 0 to 9.\<close>

definition py_isdecimal :: "char \<Rightarrow> bool" where
  "py_isdecimal c = (48 \<le> cp c \<and> cp c \<le> 57)"

text \<open>\<^verbatim>\<open>str.isdigit\<close> also takes the superscript digits U+00B2, U+00B3 and U+00B9, which
  have the Unicode property Numeric_Type=Digit.\<close>

definition py_isdigit_char :: "char \<Rightarrow> bool" where
  "py_isdigit_char c = (py_isdecimal c \<or> cp c = 178 \<or> cp c = 179 \<or> cp c = 185)"

definition py_isnumeric_char :: "char \<Rightarrow> bool" where
  "py_isnumeric_char c = (py_isdigit_char c \<or> (188 \<le> cp c \<and> cp c \<le> 190))"

definition py_isalpha_char :: "char \<Rightarrow> bool" where
  "py_isalpha_char c = (let n = cp c in
     (65 \<le> n \<and> n \<le> 90) \<or> (97 \<le> n \<and> n \<le> 122) \<or> n = 170 \<or> n = 181 \<or> n = 186 \<or>
     (192 \<le> n \<and> n \<le> 214) \<or> (216 \<le> n \<and> n \<le> 246) \<or> (248 \<le> n \<and> n \<le> 255))"

text \<open>The pattern \<^verbatim>\<open>\w\<close>, which \<^verbatim>\<open>\b\<close> reads: alphanumeric or the underscore.\<close>

definition re_word :: "char \<Rightarrow> bool" where
  "re_word c = (py_isalpha_char c \<or> py_isnumeric_char c \<or> c = CHR ''_'')"

definition py_lower_char :: "char \<Rightarrow> char" where
  "py_lower_char c = (let n = cp c in
     if (65 \<le> n \<and> n \<le> 90) \<or> (192 \<le> n \<and> n \<le> 222 \<and> n \<noteq> 215) then char_of (n + 32) else c)"

text \<open>\<^verbatim>\<open>str.upper\<close> of one character. U+00DF becomes \<open>''SS''\<close>. The upper case of U+00B5
  and of U+00FF lies beyond U+00FF; both are kept as they are: like their upper case they
  are word characters outside A to F, which is all that the code reads of an upper-cased
  string.\<close>

definition py_upper_char :: "char \<Rightarrow> string" where
  "py_upper_char c = (let n = cp c in
     if (97 \<le> n \<and> n \<le> 122) \<or> (224 \<le> n \<and> n \<le> 254 \<and> n \<noteq> 247) then [char_of (n - 32)]
     else if n = 223 then ''SS''
     else [c])"

definition py_upper :: "string \<Rightarrow> string" where
  "py_upper s = concat (map py_upper_char s)"

subsection \<open>Strings\<close>

definition py_lstrip :: "string \<Rightarrow> string" where
  "py_lstrip s = dropWhile py_isspace s"

definition py_rstrip :: "string \<Rightarrow> string" where
  "py_rstrip s = rev (dropWhile py_isspace (rev s))"

definition py_strip :: "string \<Rightarrow> string" where
  "py_strip s = py_rstrip (py_lstrip s)"

definition py_isdigit :: "string \<Rightarrow> bool" where
  "py_isdigit s = (s \<noteq> [] \<and> list_all py_isdigit_char s)"

text \<open>\<^verbatim>\<open>int(s)\<close> on a string that passed \<^verbatim>\<open>isdigit\<close>: the value of its decimal digits;
  a superscript digit is no digit of a literal and raises \<^verbatim>\<open>ValueError\<close>.\<close>

definition py_int :: "string \<Rightarrow> py_error + int" where
  "py_int s = (if s \<noteq> [] \<and> list_all py_isdecimal s
     then Inr (foldl (\<lambda>a c. 10 * a + (int (cp c) - 48)) 0 s)
     else Inl ValueError)"

fun digits_of :: "nat \<Rightarrow> string" where
  "digits_of n = (if n < 10 then [char_of (48 + n)]
     else digits_of (n div 10) @ [char_of (48 + n mod 10)])"

definition py_str_int :: "int \<Rightarrow> string" where
  "py_str_int i = (if i < 0 then CHR ''-'' # digits_of (nat (- i)) else digits_of (nat i))"

fun py_join :: "string \<Rightarrow> string list \<Rightarrow> string" where
  "py_join sep [] = []"
| "py_join sep [x] = x"
| "py_join sep (x # y # ys) = x @ sep @ py_join sep (y # ys)"

text \<open>\<^verbatim>\<open>repr\<close> of a string: single quotes, unless the string has a single quote and no
  double quote; the quote and the backslash escaped, tab, newline and carriage return by
  their letters, every other unprintable character as \<^verbatim>\<open>\xhh\<close>.\<close>

definition hex_digit :: "nat \<Rightarrow> char" where
  "hex_digit d = (if d < 10 then char_of (48 + d) else char_of (87 + d))"

definition py_isprintable_char :: "char \<Rightarrow> bool" where
  "py_isprintable_char c = (let n = cp c in
     32 \<le> n \<and> n \<noteq> 127 \<and> \<not> (128 \<le> n \<and> n \<le> 160) \<and> n \<noteq> 173)"

definition repr_char :: "char \<Rightarrow> char \<Rightarrow> string" where
  "repr_char quote c = (let n = cp c in
     if c = quote \<or> n = 92 then [CHR 0x5C, c]
     else if n = 9 then [CHR 0x5C, CHR ''t'']
     else if n = 10 then [CHR 0x5C, CHR ''n'']
     else if n = 13 then [CHR 0x5C, CHR ''r'']
     else if py_isprintable_char c then [c]
     else [CHR 0x5C, CHR ''x'', hex_digit (n div 16), hex_digit (n mod 16)])"

definition py_repr_str :: "string \<Rightarrow> string" where
  "py_repr_str s = (let quote = (if CHR 0x27 \<in> set s \<and> CHR 0x22 \<notin> set s then CHR 0x22 else CHR 0x27)
     in [quote] @ concat (map (repr_char quote) s) @ [quote])"

fun py_repr :: "json \<Rightarrow> string" where
  "py_repr JNull = ''None''"
| "py_repr (JBool b) = (if b then ''True'' else ''False'')"
| "py_repr (JInt i) = py_str_int i"
| "py_repr (JFloat r) = r"
| "py_repr (JStr s) = py_repr_str s"
| "py_repr (JList xs) = ''['' @ py_join '', '' (map py_repr xs) @ '']''"
| "py_repr (JDict kvs) = ''{'' @ py_join '', ''
     (map (\<lambda>kr. py_repr_str (fst kr) @ '': '' @ snd kr)
        (AList.clearjunk (map (\<lambda>kv. (fst kv, py_repr (snd kv))) kvs))) @ ''}''"

text \<open>\<^verbatim>\<open>str(x)\<close>: a string is itself, every other value prints as its \<^verbatim>\<open>repr\<close>.\<close>

definition py_str :: "json \<Rightarrow> string" where
  "py_str x = (case x of JStr s \<Rightarrow> s | _ \<Rightarrow> py_repr x)"

text \<open>Truth of a value, as \<^verbatim>\<open>if x\<close>, \<^verbatim>\<open>not x\<close> and \<^verbatim>\<open>x or y\<close> read it.\<close>

fun py_truthy :: "json \<Rightarrow> bool" where
  "py_truthy JNull = False"
| "py_truthy (JBool b) = b"
| "py_truthy (JInt i) = (i \<noteq> 0)"
| "py_truthy (JFloat r) = (r \<noteq> ''0.0'' \<and> r \<noteq> ''-0.0'')"
| "py_truthy (JStr s) = (s \<noteq> [])"
| "py_truthy (JList xs) = (xs \<noteq> [])"
| "py_truthy (JDict kvs) = (kvs \<noteq> [])"

definition py_or :: "json \<Rightarrow> json \<Rightarrow> json" where
  "py_or a b = (if py_truthy a then a else b)"

text \<open>\<^verbatim>\<open>d.get(k)\<close>: \<^verbatim>\<open>None\<close> for a key that is not there.\<close>

definition dict_get :: "(string \<times> json) list \<Rightarrow> string \<Rightarrow> json" where
  "dict_get kvs k = (case map_of kvs k of None \<Rightarrow> JNull | Some v \<Rightarrow> v)"

subsection \<open>Regular expressions\<close>

text \<open>
  The patterns of the code are kept as data and matched by one backtracking matcher, in
  the order Python's \<^verbatim>\<open>re\<close> tries alternatives. Every quantifier of the code's patterns
  stands on a single character class, so a repetition is a run of one class:
  \<open>Star\<close> is \<^verbatim>\<open>c*\<close>, \<open>Plus\<close> is \<^verbatim>\<open>c+\<close> (both greedy) and \<open>PlusLazy\<close> is \<^verbatim>\<open>c+?\<close>.
  \<open>Grp n\<close> is the capturing group \<open>n\<close>, \<open>Look\<close> the lookahead \<^verbatim>\<open>(?=...)\<close>,
  \<open>Bol\<close> and \<open>Eol\<close> are \<^verbatim>\<open>^\<close> and \<^verbatim>\<open>$\<close> under \<^verbatim>\<open>re.MULTILINE\<close>,
  \<open>EndS\<close> is \<^verbatim>\<open>$\<close> without it, \<open>WordB\<close> is \<^verbatim>\<open>\b\<close>.
\<close>

datatype regex =
    Eps
  | Cls "char \<Rightarrow> bool"
  | Seq regex regex
  | Alt regex regex
  | Star "char \<Rightarrow> bool"
  | Plus "char \<Rightarrow> bool"
  | PlusLazy "char \<Rightarrow> bool"
  | Grp nat regex
  | Look regex
  | Bol
  | Eol
  | EndS
  | WordB

type_synonym caps = "(nat \<times> nat \<times> nat) list"

text \<open>A match: where it starts, where it ends, and the spans of its groups.\<close>

type_synonym re_match = "nat \<times> nat \<times> caps"

definition NL :: char where
  "NL = CHR 0x0A"

definition run :: "(char \<Rightarrow> bool) \<Rightarrow> string \<Rightarrow> nat \<Rightarrow> nat" where
  "run p t i = length (takeWhile p (drop i t))"

definition word_at :: "string \<Rightarrow> nat \<Rightarrow> bool" where
  "word_at t i = (i < length t \<and> re_word (t ! i))"

text \<open>\<open>rmatch r t i c\<close>: every way \<open>r\<close> matches \<open>t\<close> from position \<open>i\<close> with the groups
  \<open>c\<close> so far, as the end position and the groups, in the order a backtracking matcher
  reaches them. The first one is the match Python reports.\<close>

primrec rmatch :: "regex \<Rightarrow> string \<Rightarrow> nat \<Rightarrow> caps \<Rightarrow> (nat \<times> caps) list" where
  "rmatch Eps t i c = [(i, c)]"
| "rmatch (Cls p) t i c = (if i < length t \<and> p (t ! i) then [(Suc i, c)] else [])"
| "rmatch (Seq a b) t i c = concat (map (\<lambda>jc. rmatch b t (fst jc) (snd jc)) (rmatch a t i c))"
| "rmatch (Alt a b) t i c = rmatch a t i c @ rmatch b t i c"
| "rmatch (Star p) t i c = map (\<lambda>j. (j, c)) (rev [i ..< Suc (i + run p t i)])"
| "rmatch (Plus p) t i c = map (\<lambda>j. (j, c)) (rev [Suc i ..< Suc (i + run p t i)])"
| "rmatch (PlusLazy p) t i c = map (\<lambda>j. (j, c)) [Suc i ..< Suc (i + run p t i)]"
| "rmatch (Grp n a) t i c = map (\<lambda>jc. (fst jc, (n, i, fst jc) # snd jc)) (rmatch a t i c)"
| "rmatch (Look a) t i c = (case rmatch a t i c of [] \<Rightarrow> [] | jc # _ \<Rightarrow> [(i, snd jc)])"
| "rmatch Bol t i c = (if i = 0 \<or> t ! (i - 1) = NL then [(i, c)] else [])"
| "rmatch Eol t i c = (if i = length t \<or> t ! i = NL then [(i, c)] else [])"
| "rmatch EndS t i c =
     (if i = length t \<or> (Suc i = length t \<and> t ! i = NL) then [(i, c)] else [])"
| "rmatch WordB t i c =
     (if (0 < i \<and> word_at t (i - 1)) \<noteq> word_at t i then [(i, c)] else [])"

fun seqs :: "regex list \<Rightarrow> regex" where
  "seqs [] = Eps"
| "seqs [r] = r"
| "seqs (r # rs) = Seq r (seqs rs)"

text \<open>\<open>scan r t is lo\<close> walks the start positions \<open>is\<close> from the left and keeps the first
  match at each position not below \<open>lo\<close>; after a match the next one starts where it
  ended. None of the code's patterns matches the empty string; a match that did would
  move the scan one position on.\<close>

fun scan :: "regex \<Rightarrow> string \<Rightarrow> nat list \<Rightarrow> nat \<Rightarrow> re_match list" where
  "scan r t [] lo = []"
| "scan r t (i # is) lo =
     (if i < lo then scan r t is lo
      else (case rmatch r t i [] of
          [] \<Rightarrow> scan r t is lo
        | jc # _ \<Rightarrow> (i, fst jc, snd jc) # scan r t is (max (fst jc) (Suc i))))"

definition re_finditer :: "regex \<Rightarrow> string \<Rightarrow> re_match list" where
  "re_finditer r t = scan r t [0 ..< Suc (length t)] 0"

definition re_search :: "regex \<Rightarrow> string \<Rightarrow> re_match option" where
  "re_search r t = (case re_finditer r t of [] \<Rightarrow> None | m # _ \<Rightarrow> Some m)"

definition re_match :: "regex \<Rightarrow> string \<Rightarrow> re_match option" where
  "re_match r t = (case rmatch r t 0 [] of [] \<Rightarrow> None | jc # _ \<Rightarrow> Some (0, fst jc, snd jc))"

definition substr :: "string \<Rightarrow> nat \<Rightarrow> nat \<Rightarrow> string" where
  "substr t i j = take (j - i) (drop i t)"

definition m_start :: "re_match \<Rightarrow> nat" where
  "m_start m = fst m"

definition m_end :: "re_match \<Rightarrow> nat" where
  "m_end m = fst (snd m)"

text \<open>\<^verbatim>\<open>m.group(k)\<close> for a group that took part in the match, \<^verbatim>\<open>m.group(0)\<close> the match.\<close>

definition m_group :: "string \<Rightarrow> re_match \<Rightarrow> nat \<Rightarrow> string" where
  "m_group t m k = (if k = 0 then substr t (m_start m) (m_end m)
     else (case map_of (snd (snd m)) k of None \<Rightarrow> [] | Some se \<Rightarrow> substr t (fst se) (snd se)))"

text \<open>\<^verbatim>\<open>re.split(r, t, maxsplit)\<close> for a pattern without groups: the pieces between the
  matches; \<open>maxsplit = 0\<close> is no limit.\<close>

fun pieces :: "string \<Rightarrow> nat \<Rightarrow> re_match list \<Rightarrow> string list" where
  "pieces t s [] = [drop s t]"
| "pieces t s (m # ms) = substr t s (m_start m) # pieces t (m_end m) ms"

definition re_split :: "regex \<Rightarrow> string \<Rightarrow> nat \<Rightarrow> string list" where
  "re_split r t maxsplit = (let ms = re_finditer r t
     in pieces t 0 (if maxsplit = 0 then ms else take maxsplit ms))"

text \<open>\<^verbatim>\<open>re.findall\<close> for a pattern with two groups: the pairs of their texts.\<close>

definition re_findall2 :: "regex \<Rightarrow> string \<Rightarrow> (string \<times> string) list" where
  "re_findall2 r t = map (\<lambda>m. (m_group t m 1, m_group t m 2)) (re_finditer r t)"

text \<open>Character classes of the patterns.\<close>

definition lit :: "char \<Rightarrow> char \<Rightarrow> bool" where
  "lit c x = (x = c)"

text \<open>A literal under \<^verbatim>\<open>re.IGNORECASE\<close>.\<close>

definition lit_ci :: "char \<Rightarrow> char \<Rightarrow> bool" where
  "lit_ci c x = (py_lower_char x = py_lower_char c)"

definition one_of :: "string \<Rightarrow> char \<Rightarrow> bool" where
  "one_of cs x = (x \<in> set cs)"

text \<open>\<^verbatim>\<open>[A-F]\<close>, and \<^verbatim>\<open>[A-F]\<close> under \<^verbatim>\<open>re.IGNORECASE\<close>.\<close>

definition cls_AF :: "char \<Rightarrow> bool" where
  "cls_AF x = (65 \<le> cp x \<and> cp x \<le> 70)"

definition cls_AF_ci :: "char \<Rightarrow> bool" where
  "cls_AF_ci x = (cls_AF x \<or> (97 \<le> cp x \<and> cp x \<le> 102))"

definition word_ci :: "string \<Rightarrow> regex" where
  "word_ci w = seqs (map (\<lambda>c. Cls (lit_ci c)) w)"

section \<open>The answer resolver\<close>

text \<open>\<^verbatim>\<open>\b([A-F])\b\<close>\<close>

definition re_standalone_letter :: regex where
  "re_standalone_letter = seqs [WordB, Grp 1 (Cls cls_AF), WordB]"

text \<open>\<^verbatim>\<open>_answer_to_index(answer, options)\<close>. \<^verbatim>\<open>isinstance(answer, int)\<close> holds of a
  \<^verbatim>\<open>bool\<close> too, whose value as an index is 0 or 1. The result is \<open>Inr None\<close> for
  \<^verbatim>\<open>None\<close>, \<open>Inr (Some i)\<close> for the index \<open>i\<close>, \<open>Inl e\<close> when the call raises.\<close>

definition answer_to_index :: "json \<Rightarrow> 'a list \<Rightarrow> py_error + int option" where
  "answer_to_index answer opts =
    (case answer of
       JNull \<Rightarrow> Inr None
     | JInt a \<Rightarrow> Inr (if 0 \<le> a \<and> a < int (length opts) then Some a else None)
     | JBool b \<Rightarrow> (let a = (if b then 1 else 0)
                  in Inr (if 0 \<le> a \<and> a < int (length opts) then Some a else None))
     | _ \<Rightarrow>
       (let n = int (length opts); s = py_strip (py_str answer) in
        if s = [] then Inr None
        else (case re_search re_standalone_letter (py_upper s) of
            Some m \<Rightarrow>
              (let idx = int (cp (hd (m_group (py_upper s) m 1))) - int (cp (CHR ''A''))
               in Inr (if 0 \<le> idx \<and> idx < n then Some idx else None))
          | None \<Rightarrow>
              if py_isdigit s then
                (case py_int s of
                   Inl e \<Rightarrow> Inl e
                 | Inr val \<Rightarrow>
                     if 0 \<le> val \<and> val < n then Inr (Some val)
                     else if 1 \<le> val \<and> val \<le> n then Inr (Some (val - 1))
                     else Inr None)
              else Inr None)))"

section \<open>JSON extraction\<close>

text \<open>\<^verbatim>\<open>\{[\s\S]*\}\<close> and \<^verbatim>\<open>\[[\s\S]*\]\<close>\<close>

definition any_char :: "char \<Rightarrow> bool" where
  "any_char x = True"

definition re_braces :: regex where
  "re_braces = seqs [Cls (lit (CHR ''{'')), Star any_char, Cls (lit (CHR ''}''))]"

definition re_brackets :: regex where
  "re_brackets = seqs [Cls (lit (CHR ''['')), Star any_char, Cls (lit (CHR '']''))]"

text \<open>\<^verbatim>\<open>_extract_json_obj(text)\<close>. The decoder \<^verbatim>\<open>json.loads\<close> is library code: it is the
  parameter \<open>loads\<close>, which gives \<open>None\<close> where the decoder raises. The result \<open>JNull\<close>
  is Python's \<^verbatim>\<open>None\<close>.\<close>

definition extract_json_obj :: "(string \<Rightarrow> json option) \<Rightarrow> string \<Rightarrow> json" where
  "extract_json_obj loads text =
    (if text = [] then JNull
     else let t = py_strip text in
       (case loads t of
          Some v \<Rightarrow> v
        | None \<Rightarrow>
          (case Option.bind (re_search re_braces t) (\<lambda>m. loads (m_group t m 0)) of
             Some v \<Rightarrow> v
           | None \<Rightarrow>
             (case Option.bind (re_search re_brackets t) (\<lambda>m. loads (m_group t m 0)) of
                Some v \<Rightarrow> v
              | None \<Rightarrow> JNull))))"

section \<open>Normalization\<close>

text \<open>A question of the canonical quiz: the dictionary with the keys \<^verbatim>\<open>question\<close>,
  \<^verbatim>\<open>options\<close>, \<^verbatim>\<open>answer\<close> and \<^verbatim>\<open>explanation\<close> that \<^verbatim>\<open>_normalize_qcm\<close> builds. The quiz
  \<^verbatim>\<open>{"questions": out}\<close> is the list \<open>out\<close>. When the options of an entry are a string
  the code keeps the string, and everything after it reads the string by \<^verbatim>\<open>len\<close>,
  \<^verbatim>\<open>enumerate\<close> and indexing: the model keeps its characters, one option each.\<close>

record qcm_question =
  question :: string
  options :: "string list"
  answer :: json
  explanation :: string

text \<open>\<^verbatim>\<open>x.strip()\<close> on a value: only a string has the method.\<close>

definition val_strip :: "json \<Rightarrow> py_error + string" where
  "val_strip x = (case x of JStr s \<Rightarrow> Inr (py_strip s) | _ \<Rightarrow> Inl AttributeError)"

text \<open>The options of a dictionary \<^verbatim>\<open>{"A": ...}\<close>: \<^verbatim>\<open>f"{k}) {str(opts[k]).strip()}"\<close> for the
  letters that are keys, in the order A to F.\<close>

definition opts_of_dict :: "(string \<times> json) list \<Rightarrow> string list" where
  "opts_of_dict d = concat (map
     (\<lambda>k. case map_of d k of None \<Rightarrow> [] | Some v \<Rightarrow> [k @ '') '' @ py_strip (py_str v)])
     [''A'', ''B'', ''C'', ''D'', ''E'', ''F''])"

text \<open>\<^verbatim>\<open>[str(x).strip() for x in opts if str(x).strip()]\<close>\<close>

definition opts_of_list :: "json list \<Rightarrow> string list" where
  "opts_of_list xs = filter (\<lambda>s. s \<noteq> []) (map (\<lambda>x. py_strip (py_str x)) xs)"

text \<open>The two conversions of \<^verbatim>\<open>opts\<close>, one after the other: a dictionary becomes a list,
  and a list (the converted one too) is stripped and filtered.\<close>

definition convert_opts :: "json \<Rightarrow> json" where
  "convert_opts opts0 =
    (let opts1 = (case opts0 of JDict d \<Rightarrow> JList (map JStr (opts_of_dict d)) | _ \<Rightarrow> opts0)
     in (case opts1 of JList xs \<Rightarrow> JList (map JStr (opts_of_list xs)) | _ \<Rightarrow> opts1))"

text \<open>\<^verbatim>\<open>len(opts)\<close> with the options it counts; a number or \<^verbatim>\<open>True\<close> has no length.\<close>

definition opts_sized :: "json \<Rightarrow> py_error + string list" where
  "opts_sized opts =
    (case opts of
       JList xs \<Rightarrow> Inr (map py_str xs)
     | JStr s \<Rightarrow> Inr (map (\<lambda>c. [c]) s)
     | _ \<Rightarrow> Inl TypeError)"

text \<open>The four values that the body of the loop over \<^verbatim>\<open>qs\<close> reads from an entry \<open>q\<close>
  with the items \<open>d\<close>: \<^verbatim>\<open>q.get("question") or q.get("q") or ""\<close>, the converted
  \<^verbatim>\<open>q.get("options") or q.get("choices") or q.get("answers") or []\<close>,
  \<^verbatim>\<open>q.get("answer") or q.get("correct") or q.get("correct_answer")\<close> and
  \<^verbatim>\<open>q.get("explanation") or q.get("exp") or ""\<close>.\<close>

definition entry_question :: "(string \<times> json) list \<Rightarrow> json" where
  "entry_question d = py_or (dict_get d ''question'') (py_or (dict_get d ''q'') (JStr []))"

definition entry_opts :: "(string \<times> json) list \<Rightarrow> json" where
  "entry_opts d = convert_opts (py_or (dict_get d ''options'')
     (py_or (dict_get d ''choices'') (py_or (dict_get d ''answers'') (JList []))))"

definition entry_answer :: "(string \<times> json) list \<Rightarrow> json" where
  "entry_answer d = py_or (dict_get d ''answer'')
     (py_or (dict_get d ''correct'') (dict_get d ''correct_answer''))"

definition entry_explanation :: "(string \<times> json) list \<Rightarrow> json" where
  "entry_explanation d = py_or (dict_get d ''explanation'') (py_or (dict_get d ''exp'') (JStr []))"

text \<open>The body of the loop over \<^verbatim>\<open>qs\<close>: \<open>Inr None\<close> is \<^verbatim>\<open>continue\<close>, \<open>Inr (Some r)\<close>
  appends \<open>r\<close>, \<open>Inl e\<close> is an exception, which ends the call. The question is stripped
  first and the explanation after the options and the answer are read; \<^verbatim>\<open>len(opts)\<close> is
  evaluated only when the question is not empty.\<close>

definition normalize_entry :: "json \<Rightarrow> py_error + qcm_question option" where
  "normalize_entry q =
    (case q of
       JDict d \<Rightarrow>
        (case val_strip (entry_question d) of
           Inl e \<Rightarrow> Inl e
         | Inr qtext \<Rightarrow>
            (let opts = entry_opts d; ans = entry_answer d
             in (case val_strip (entry_explanation d) of
                   Inl e \<Rightarrow> Inl e
                 | Inr exp \<Rightarrow>
                    if qtext = [] then Inr None
                    else (case opts_sized opts of
                        Inl e \<Rightarrow> Inl e
                      | Inr os \<Rightarrow>
                          if length os < 2 then Inr None
                          else Inr (Some \<lparr>question = qtext, options = os,
                                           answer = ans, explanation = exp\<rparr>)))))
     | _ \<Rightarrow> Inr None)"

fun normalize_loop :: "json list \<Rightarrow> qcm_question list \<Rightarrow> py_error + qcm_question list" where
  "normalize_loop [] out = Inr out"
| "normalize_loop (q # qs) out =
    (case normalize_entry q of
       Inl e \<Rightarrow> Inl e
     | Inr None \<Rightarrow> normalize_loop qs out
     | Inr (Some r) \<Rightarrow> normalize_loop qs (out @ [r]))"

text \<open>\<^verbatim>\<open>_normalize_qcm(data)\<close>: \<open>Inr None\<close> is \<^verbatim>\<open>None\<close>, \<open>Inr (Some out)\<close> is
  \<^verbatim>\<open>{"questions": out}\<close>.\<close>

definition normalize_qcm :: "json \<Rightarrow> py_error + qcm_question list option" where
  "normalize_qcm data0 =
    (if data0 = JNull then Inr None
     else let data = (case data0 of JList xs \<Rightarrow> JDict [(''questions'', data0)] | _ \<Rightarrow> data0) in
       (case data of
          JDict d0 \<Rightarrow>
           (let d = (if map_of d0 ''questions'' = None \<and> map_of d0 ''quiz'' \<noteq> None
                     then d0 @ [(''questions'', dict_get d0 ''quiz'')] else d0);
                qs = dict_get d ''questions''
            in (case qs of
                  JList (x # xs) \<Rightarrow>
                   (case normalize_loop (x # xs) [] of
                      Inl e \<Rightarrow> Inl e
                    | Inr out \<Rightarrow> if out = [] then Inr None else Inr (Some out))
                | _ \<Rightarrow> Inr None))
        | _ \<Rightarrow> Inr None))"

section \<open>The text-block parser\<close>

text \<open>\<^verbatim>\<open>t.replace("\r\n", "\n")\<close>\<close>

fun replace_crlf :: "string \<Rightarrow> string" where
  "replace_crlf (a # b # s) =
     (if a = CHR 0x0D \<and> b = CHR 0x0A then CHR 0x0A # replace_crlf s
      else a # replace_crlf (b # s))"
| "replace_crlf s = s"

definition not_newline :: "char \<Rightarrow> bool" where
  "not_newline x = (x \<noteq> NL)"

definition not_AF_ci :: "char \<Rightarrow> bool" where
  "not_AF_ci x = (\<not> cls_AF_ci x)"

text \<open>\<^verbatim>\<open>\n(?=Q\d+\s*[:\-\)])\<close>\<close>

definition re_block_split :: regex where
  "re_block_split = Seq (Cls (lit NL))
     (Look (seqs [Cls (lit (CHR ''Q'')), Plus py_isdecimal, Star py_isspace,
                  Cls (one_of '':-)'')]))"

text \<open>\<^verbatim>\<open>Q(\d+)\s*[:\-\)]\s*(.*)\<close> with \<^verbatim>\<open>re.IGNORECASE | re.DOTALL\<close>\<close>

definition re_block_head :: regex where
  "re_block_head = seqs [Cls (lit_ci (CHR ''Q'')), Grp 1 (Plus py_isdecimal), Star py_isspace,
     Cls (one_of '':-)''), Star py_isspace, Grp 2 (Star any_char)]"

text \<open>\<^verbatim>\<open>(?:ANSWER|R[\xc9E]PONSE)\s*[:\-]\<close> with \<^verbatim>\<open>re.IGNORECASE\<close>, where
  \<^verbatim>\<open>\xc9\<close> stands for the accented capital E that the source writes (U+00C9).\<close>

definition re_answer_mark :: regex where
  "re_answer_mark = seqs [
     Alt (word_ci ''ANSWER'')
         (seqs [Cls (lit_ci (CHR ''R'')),
                Cls (\<lambda>x. lit_ci (CHR 0xC9) x \<or> lit_ci (CHR ''E'') x),
                word_ci ''PONSE'']),
     Star py_isspace, Cls (one_of '':-'')]"

text \<open>\<^verbatim>\<open>(?:ANSWER|R[\xc9E]PONSE)\s*[:\-]\s*([A-F])\b\<close> with \<^verbatim>\<open>re.IGNORECASE\<close>\<close>

definition re_answer :: regex where
  "re_answer = seqs [re_answer_mark, Star py_isspace, Grp 1 (Cls cls_AF_ci), WordB]"

text \<open>\<^verbatim>\<open>(?:EXPLANATION|EXPLICATION)\s*[:\-]\<close> with \<^verbatim>\<open>re.IGNORECASE\<close>\<close>

definition re_explanation_mark :: regex where
  "re_explanation_mark = seqs [
     Alt (word_ci ''EXPLANATION'') (word_ci ''EXPLICATION''),
     Star py_isspace, Cls (one_of '':-'')]"

text \<open>\<^verbatim>\<open>(?:EXPLANATION|EXPLICATION)\s*[:\-]\s*([\s\S]*)\<close> with \<^verbatim>\<open>re.IGNORECASE\<close>\<close>

definition re_explanation :: regex where
  "re_explanation = seqs [re_explanation_mark, Star py_isspace, Grp 1 (Star any_char)]"

text \<open>\<^verbatim>\<open>^\s*([A-F])[\)\.\:\-]\s*(.+)$\<close> with \<^verbatim>\<open>re.IGNORECASE | re.MULTILINE\<close>\<close>

definition re_option_line :: regex where
  "re_option_line = seqs [Bol, Star py_isspace, Grp 1 (Cls cls_AF_ci), Cls (one_of '').:-''),
     Star py_isspace, Grp 2 (Plus not_newline), Eol]"

text \<open>\<^verbatim>\<open>([A-F])[\)\.\:\-]\s*([^A-F]+?)(?=(?:\s+[A-F][\)\.\:\-])|$)\<close> with
  \<^verbatim>\<open>re.IGNORECASE\<close>\<close>

definition re_option_inline :: regex where
  "re_option_inline = seqs [Grp 1 (Cls cls_AF_ci), Cls (one_of '').:-''), Star py_isspace,
     Grp 2 (PlusLazy not_AF_ci),
     Look (Alt (seqs [Plus py_isspace, Cls cls_AF_ci, Cls (one_of '').:-'')]) EndS)]"

text \<open>\<^verbatim>\<open>[A-F][\)\.\:\-]\s*\<close> with \<^verbatim>\<open>re.IGNORECASE\<close>\<close>

definition re_option_mark :: regex where
  "re_option_mark = seqs [Cls cls_AF_ci, Cls (one_of '').:-''), Star py_isspace]"

text \<open>The dictionary of one recovered question.\<close>

definition question_dict :: "string \<Rightarrow> string list \<Rightarrow> json \<Rightarrow> string \<Rightarrow> json" where
  "question_dict question_text opts ans_letter exp =
     JDict [(''question'', JStr (if question_text = [] then ''(Question)'' else question_text)),
            (''options'', JList (map JStr opts)),
            (''answer'', ans_letter),
            (''explanation'', JStr exp)]"

text \<open>The text of a block after its \<^verbatim>\<open>Qn:\<close> head, with the answer and explanation
  sections cut off: \<^verbatim>\<open>rest_clean\<close>. (\<^verbatim>\<open>re.split\<close> gives at least one piece.)\<close>

definition clean_rest :: "string \<Rightarrow> string" where
  "clean_rest rest = hd (re_split re_explanation_mark (hd (re_split re_answer_mark rest 0)) 0)"

text \<open>The body of the loop over the blocks: \<open>None\<close> is \<^verbatim>\<open>continue\<close>, \<open>Some q\<close>
  appends the question \<open>q\<close>.\<close>

definition parse_block :: "string \<Rightarrow> json option" where
  "parse_block block =
    (case re_match re_block_head block of
       None \<Rightarrow> None
     | Some m \<Rightarrow>
        (let rest = py_strip (m_group block m 2);
             ans_letter = (case re_search re_answer rest of
                 Some m_ans \<Rightarrow> JStr (py_upper (m_group rest m_ans 1))
               | None \<Rightarrow> JNull);
             exp = (case re_search re_explanation rest of
                 Some m_exp \<Rightarrow> py_strip (m_group rest m_exp 1)
               | None \<Rightarrow> []);
             rest_clean = clean_rest rest;
             opt_matches = re_finditer re_option_line rest_clean
         in if length opt_matches < 2 then
              (let opt_inline = re_findall2 re_option_inline rest_clean in
               if 2 \<le> length opt_inline then
                 Some (question_dict
                   (py_strip (hd (re_split re_option_mark rest_clean 1)))
                   (map (\<lambda>kv. py_upper (fst kv) @ '') '' @ py_strip (snd kv)) opt_inline)
                   ans_letter exp)
               else None)
            else
              Some (question_dict
                (py_strip (take (m_start (hd opt_matches)) rest_clean))
                (map (\<lambda>mm. py_upper (m_group rest_clean mm 1) @ '') '' @
                            py_strip (m_group rest_clean mm 2)) opt_matches)
                ans_letter exp)))"

text \<open>The blocks: the text split before each line that starts with \<^verbatim>\<open>Qn\<close> and one of
  \<^verbatim>\<open>: - )\<close>, stripped, the empty ones dropped.\<close>

definition split_blocks :: "string \<Rightarrow> string list" where
  "split_blocks t = filter (\<lambda>p. p \<noteq> []) (map py_strip (re_split re_block_split (NL # t) 0))"

text \<open>\<^verbatim>\<open>_parse_qcm_from_text(raw)\<close>; \<open>JNull\<close> is \<^verbatim>\<open>None\<close>.\<close>

definition parse_qcm_from_text :: "string \<Rightarrow> json" where
  "parse_qcm_from_text raw =
    (if raw = [] then JNull
     else let t = replace_crlf (py_strip raw);
              questions = List.map_filter parse_block (split_blocks t)
          in if questions = [] then JNull else JDict [(''questions'', JList questions)])"

section \<open>The quiz session\<close>

text \<open>The status line of the quiz tab. Its texts hold characters beyond U+00FF, so the
  four texts the code writes are kept apart by name: \<open>StatusNone\<close> is
  \<^verbatim>\<open>"Aucun QCM genere."\<close>, \<open>StatusGenerating\<close> the text shown during generation,
  \<open>StatusGenerated n\<close> is \<^verbatim>\<open>f"QCM genere : {n} question(s)."\<close> and
  \<open>StatusFinished score total\<close> is \<^verbatim>\<open>f"Termine - Score : {score}/{total}"\<close>.\<close>

datatype qcm_status =
    StatusNone
  | StatusGenerating
  | StatusGenerated nat
  | StatusFinished int nat

text \<open>The fields of \<^verbatim>\<open>CartableApp\<close> that the quiz tab reads and writes. \<open>qcm_data\<close> is
  \<open>None\<close> before the first quiz; \<open>qcm_choice_var\<close> is the variable of the radio buttons,
  \<open>-1\<close> when none is selected; \<open>qcm_n_var\<close> is the variable of the spin box, \<open>None\<close>
  when its text is no number (reading it then raises \<^verbatim>\<open>TclError\<close>); the three buttons are \<open>True\<close> when enabled;
  \<open>qcm_correction\<close> holds the lines of the correction text.\<close>

record app_state =
  qcm_path_var :: string
  qcm_n_var :: "int option"
  qcm_diff_var :: string
  qcm_data :: "qcm_question list option"
  qcm_index :: int
  qcm_user_answers :: "int \<Rightarrow> int option"
  qcm_choice_var :: int
  qcm_status :: qcm_status
  btn_prev :: bool
  btn_next :: bool
  btn_finish :: bool
  qcm_correction :: "string list"

text \<open>\<^verbatim>\<open>xs[i]\<close>: a negative index counts from the end, an index out of range raises.\<close>

definition py_index :: "'a list \<Rightarrow> int \<Rightarrow> py_error + 'a" where
  "py_index xs i =
    (if 0 \<le> i \<and> i < int (length xs) then Inr (xs ! nat i)
     else if i < 0 \<and> - int (length xs) \<le> i then Inr (xs ! nat (int (length xs) + i))
     else Inl IndexError)"

definition set_qcm_enabled :: "bool \<Rightarrow> app_state \<Rightarrow> app_state" where
  "set_qcm_enabled enabled s =
    (case qcm_data s of
       Some qs \<Rightarrow>
         if enabled then
           s\<lparr>btn_prev := (qcm_index s \<noteq> 0),
             btn_next := (qcm_index s < int (length qs) - 1),
             btn_finish := True\<rparr>
         else s\<lparr>btn_prev := False, btn_next := False, btn_finish := False\<rparr>
     | None \<Rightarrow> s\<lparr>btn_prev := False, btn_next := False, btn_finish := False\<rparr>)"

text \<open>The methods of the quiz tab are callbacks of the interface: an exception that
  leaves one ends the callback and the application goes on in the state the callback
  reached. A method therefore gives the state it leaves and the exception, if it raised.\<close>

type_synonym outcome = "app_state \<times> py_error option"

text \<open>\<^verbatim>\<open>qcm_render_question\<close>: reads the current question (an index out of range raises)
  and sets the radio variable to the recorded answer of the current index, or \<open>-1\<close>.\<close>

definition qcm_render_question :: "app_state \<Rightarrow> outcome" where
  "qcm_render_question s =
    (case qcm_data s of
       None \<Rightarrow> (s, None)
     | Some qs \<Rightarrow>
        (case py_index qs (qcm_index s) of
           Inl e \<Rightarrow> (s, Some e)
         | Inr q \<Rightarrow>
             (set_qcm_enabled True
               (s\<lparr>qcm_choice_var :=
                    (case qcm_user_answers s (qcm_index s) of None \<Rightarrow> - 1 | Some v \<Rightarrow> v)\<rparr>),
              None)))"

definition qcm_save_choice :: "app_state \<Rightarrow> app_state" where
  "qcm_save_choice s =
    (let val = qcm_choice_var s
     in if 0 \<le> val then s\<lparr>qcm_user_answers := (qcm_user_answers s)(qcm_index s \<mapsto> val)\<rparr>
        else s)"

text \<open>A click on the radio button of option \<open>i\<close>: Tk sets the variable to the button's
  value and calls the button's command, \<^verbatim>\<open>qcm_save_choice\<close>.\<close>

definition select_choice :: "int \<Rightarrow> app_state \<Rightarrow> app_state" where
  "select_choice i s = qcm_save_choice (s\<lparr>qcm_choice_var := i\<rparr>)"

definition qcm_prev :: "app_state \<Rightarrow> outcome" where
  "qcm_prev s =
    (case qcm_data s of
       None \<Rightarrow> (s, None)
     | Some qs \<Rightarrow>
        (let s1 = qcm_save_choice s;
             s2 = (if 0 < qcm_index s1 then s1\<lparr>qcm_index := qcm_index s1 - 1\<rparr> else s1)
         in qcm_render_question s2))"

definition qcm_next :: "app_state \<Rightarrow> outcome" where
  "qcm_next s =
    (case qcm_data s of
       None \<Rightarrow> (s, None)
     | Some qs \<Rightarrow>
        (let s1 = qcm_save_choice s;
             s2 = (if qcm_index s1 < int (length qs) - 1
                   then s1\<lparr>qcm_index := qcm_index s1 + 1\<rparr> else s1)
         in qcm_render_question s2))"

text \<open>The lines of one question in the correction. The accented letter of
  \<^verbatim>\<open>"Ta reponse : "\<close> and \<^verbatim>\<open>"Bonne reponse : "\<close> is U+00E9.\<close>

definition line_user :: "string list \<Rightarrow> int option \<Rightarrow> py_error + string" where
  "line_user opts user_idx =
    (case user_idx of
       None \<Rightarrow> Inr (''Ta r'' @ [CHR 0xE9] @ ''ponse : (aucune)'')
     | Some u \<Rightarrow>
        (case py_index opts u of
           Inl e \<Rightarrow> Inl e
         | Inr opt \<Rightarrow> Inr (''Ta r'' @ [CHR 0xE9] @ ''ponse : '' @ opt)))"

definition line_correct :: "string list \<Rightarrow> int option \<Rightarrow> py_error + string" where
  "line_correct opts correct_idx =
    (case correct_idx of
       None \<Rightarrow> Inr (''Bonne r'' @ [CHR 0xE9] @ ''ponse : (inconnue)'')
     | Some c \<Rightarrow>
        (case py_index opts c of
           Inl e \<Rightarrow> Inl e
         | Inr opt \<Rightarrow> Inr (''Bonne r'' @ [CHR 0xE9] @ ''ponse : '' @ opt)))"

text \<open>The loop of \<^verbatim>\<open>qcm_finish\<close> over \<^verbatim>\<open>enumerate(qs)\<close>, from the index \<open>idx\<close> on, with
  the score and the lines so far.\<close>

fun finish_loop ::
  "qcm_question list \<Rightarrow> int \<Rightarrow> (int \<Rightarrow> int option) \<Rightarrow> int \<Rightarrow> string list
     \<Rightarrow> py_error + (int \<times> string list)" where
  "finish_loop [] idx answers score lines = Inr (score, lines)"
| "finish_loop (q # qs) idx answers score lines =
    (case answer_to_index (answer q) (options q) of
       Inl e \<Rightarrow> Inl e
     | Inr correct_idx \<Rightarrow>
        (let user_idx = answers idx;
             ok = (correct_idx \<noteq> None \<and> user_idx = correct_idx);
             score' = (if ok then score + 1 else score)
         in (case line_user (options q) user_idx of
               Inl e \<Rightarrow> Inl e
             | Inr l_user \<Rightarrow>
                (case line_correct (options q) correct_idx of
                   Inl e \<Rightarrow> Inl e
                 | Inr l_correct \<Rightarrow>
                     finish_loop qs (idx + 1) answers score'
                       (lines @ [''Q'' @ py_str_int (idx + 1) @ '': '' @ question q,
                                 l_user, l_correct]
                              @ (if explanation q \<noteq> []
                                 then [''Explication : '' @ explanation q] else [])
                              @ [replicate 60 (CHR ''-'')])))))"

definition qcm_finish :: "app_state \<Rightarrow> outcome" where
  "qcm_finish s =
    (case qcm_data s of
       None \<Rightarrow> (s, None)
     | Some qs \<Rightarrow>
        (let s1 = qcm_save_choice s in
         (case finish_loop qs 0 (qcm_user_answers s1) 0 [] of
            Inl e \<Rightarrow> (s1, Some e)
          | Inr sl \<Rightarrow>
              (s1\<lparr>qcm_status := StatusFinished (fst sl) (length qs),
                   qcm_correction := snd sl\<rparr>, None))))"

section \<open>Generating a quiz\<close>

text \<open>What \<^verbatim>\<open>gui_generate_qcm\<close> reads from outside the application: \<open>env_file p\<close> is
  \<open>None\<close> when no file is at the path \<open>p\<close>, else the outcome of opening and reading it;
  \<open>env_model text n difficulty\<close> is the outcome of \<^verbatim>\<open>generate_qcm_quiz\<close>, which raises
  \<^verbatim>\<open>RuntimeError\<close> when the model process is missing or prints nothing; \<open>env_loads\<close> is
  \<^verbatim>\<open>json.loads\<close>.\<close>

record gen_env =
  env_file :: "string \<Rightarrow> (py_error + string) option"
  env_model :: "string \<Rightarrow> int \<Rightarrow> string \<Rightarrow> py_error + string"
  env_loads :: "string \<Rightarrow> json option"

text \<open>\<^verbatim>\<open>.strip('"')\<close>\<close>

definition strip_quotes :: "string \<Rightarrow> string" where
  "strip_quotes s = rev (dropWhile (\<lambda>c. c = CHR 0x22) (rev (dropWhile (\<lambda>c. c = CHR 0x22) s)))"

text \<open>\<^verbatim>\<open>path = self.qcm_path_var.get().strip().strip('"')\<close>\<close>

definition qcm_path :: "app_state \<Rightarrow> string" where
  "qcm_path s = strip_quotes (py_strip (qcm_path_var s))"

text \<open>From the call of the model to the quiz that will be installed: the JSON reading
  first, the text reading when the first gives nothing, \<^verbatim>\<open>ValueError\<close> when both do.\<close>

definition generate_quiz ::
  "gen_env \<Rightarrow> string \<Rightarrow> int \<Rightarrow> string \<Rightarrow> py_error + qcm_question list" where
  "generate_quiz env text n diff =
    (case env_model env text n diff of
       Inl e \<Rightarrow> Inl e
     | Inr raw \<Rightarrow>
        (case normalize_qcm (extract_json_obj (env_loads env) raw) of
           Inl e \<Rightarrow> Inl e
         | Inr (Some data) \<Rightarrow> Inr data
         | Inr None \<Rightarrow>
            (case normalize_qcm (parse_qcm_from_text raw) of
               Inl e \<Rightarrow> Inl e
             | Inr (Some data) \<Rightarrow> Inr data
             | Inr None \<Rightarrow> Inl ValueError)))"

text \<open>The handler \<^verbatim>\<open>except Exception\<close>.\<close>

definition on_generate_error :: "app_state \<Rightarrow> app_state" where
  "on_generate_error s = set_qcm_enabled False (s\<lparr>qcm_status := StatusNone\<rparr>)"

text \<open>The text that resets the correction: \<^verbatim>\<open>"Le corrige s'affichera ici apres 'Terminer'."\<close>
  with its accented letters U+00E9 and U+00E8.\<close>

definition correction_placeholder :: string where
  "correction_placeholder =
     ''Le corrig'' @ [CHR 0xE9] @ '' s'' @ [CHR 0x27] @ ''affichera ici apr'' @ [CHR 0xE8] @
     ''s '' @ [CHR 0x27] @ ''Terminer'' @ [CHR 0x27] @ ''.''"

text \<open>\<^verbatim>\<open>gui_generate_qcm\<close>. The handler catches every exception of the \<^verbatim>\<open>try\<close> block,
  so the call itself never raises: the result is the next state. The three early
  \<^verbatim>\<open>return\<close>s (no path, no file, empty file) leave the state as it is.\<close>

definition gui_generate_qcm :: "gen_env \<Rightarrow> app_state \<Rightarrow> app_state" where
  "gui_generate_qcm env s =
    (let path = qcm_path s in
     if path = [] then s
     else (case env_file env path of
         None \<Rightarrow> s
       | Some (Inl e) \<Rightarrow> on_generate_error s
       | Some (Inr contents) \<Rightarrow>
          (let text = py_strip contents in
           if text = [] then s
           else (case qcm_n_var s of
               None \<Rightarrow> on_generate_error s
             | Some n \<Rightarrow>
              (let s0 = set_qcm_enabled False (s\<lparr>qcm_status := StatusGenerating\<rparr>) in
               (case generate_quiz env text n (py_strip (qcm_diff_var s)) of
                  Inl e \<Rightarrow> on_generate_error s0
                | Inr data \<Rightarrow>
                   (let s1 = s0\<lparr>qcm_data := Some data, qcm_index := 0,
                                qcm_user_answers := Map.empty\<rparr>;
                        s2 = set_qcm_enabled True
                               (s1\<lparr>qcm_status := StatusGenerated (length data)\<rparr>)
                    in (case qcm_render_question s2 of
                          (s3, Some e) \<Rightarrow> on_generate_error s3
                        | (s3, None) \<Rightarrow>
                            s3\<lparr>qcm_correction := [correction_placeholder]\<rparr>))))))))"

subsection \<open>Sessions\<close>

text \<open>The state \<^verbatim>\<open>__init__\<close> builds: no quiz, no answer, no selection.\<close>

definition init_state :: app_state where
  "init_state = \<lparr>qcm_path_var = [], qcm_n_var = Some 5, qcm_diff_var = ''moyen'',
     qcm_data = None, qcm_index = 0, qcm_user_answers = Map.empty, qcm_choice_var = - 1,
     qcm_status = StatusNone, btn_prev = False, btn_next = False, btn_finish = False,
     qcm_correction = [correction_placeholder]\<rparr>"

text \<open>What the user does on the quiz tab: edit the three inputs of the generator, press
  the generate button (the outside world answering as \<open>env\<close>), click the radio button of
  an option, and press one of the three navigation buttons.\<close>

datatype action =
    Edit string "int option" string
  | Generate gen_env
  | Select int
  | Prev
  | Next
  | Finish

fun step :: "action \<Rightarrow> app_state \<Rightarrow> app_state" where
  "step (Edit path n diff) s = s\<lparr>qcm_path_var := path, qcm_n_var := n, qcm_diff_var := diff\<rparr>"
| "step (Generate env) s = gui_generate_qcm env s"
| "step (Select i) s = select_choice i s"
| "step Prev s = fst (qcm_prev s)"
| "step Next s = fst (qcm_next s)"
| "step Finish s = fst (qcm_finish s)"

text \<open>The state after a sequence of actions, the first action first.\<close>

definition run_actions :: "action list \<Rightarrow> app_state \<Rightarrow> app_state" where
  "run_actions acts s = foldl (\<lambda>st a. step a st) s acts"

text \<open>A loaded session: a quiz is installed and the current index is one of its
  questions.\<close>

definition loaded :: "app_state \<Rightarrow> bool" where
  "loaded s = (case qcm_data s of
      None \<Rightarrow> False
    | Some qs \<Rightarrow> 0 \<le> qcm_index s \<and> qcm_index s < int (length qs))"

text \<open>The session of the quiz tab: the stored quiz, the current index and the recorded
  answers.\<close>

definition session :: "app_state \<Rightarrow> qcm_question list option \<times> int \<times> (int \<Rightarrow> int option)" where
  "session s = (qcm_data s, qcm_index s, qcm_user_answers s)"

text \<open>The navigation buttons, and the indices shown before each action of a sequence:
  the indices that the sequence visits.\<close>

definition is_nav :: "action \<Rightarrow> bool" where
  "is_nav a = (a = Prev \<or> a = Next)"

fun visited :: "action list \<Rightarrow> app_state \<Rightarrow> int list" where
  "visited [] s = []"
| "visited (a # as) s = qcm_index s # visited as (step a s)"

subsection \<open>A sample session\<close>

definition sample_quiz :: "qcm_question list" where
  "sample_quiz =
    [\<lparr>question = ''What is 2+2?'', options = [''A) 3'', ''B) 4'', ''C) 5''],
      answer = JStr ''B'', explanation = ''Basic arithmetic.''\<rparr>,
     \<lparr>question = ''What is 1+1?'', options = [''A) 2'', ''B) 3''],
      answer = JInt 0, explanation = []\<rparr>,
     \<lparr>question = ''What is 3+3?'', options = [''A) 5'', ''B) 6''],
      answer = JStr ''2'', explanation = []\<rparr>]"

text \<open>The first question is shown with its second option selected; the third question
  has a recorded answer.\<close>

definition sample_state :: app_state where
  "sample_state = init_state\<lparr>qcm_data := Some sample_quiz, qcm_index := 0,
     qcm_user_answers := [2 \<mapsto> 1], qcm_choice_var := 1\<rparr>"

text \<open>A quiz whose answer key is the superscript digit two, U+00B2.\<close>

definition superscript_quiz :: "qcm_question list" where
  "superscript_quiz =
    [\<lparr>question = ''Which one?'', options = [''x'', ''y'', ''z''],
      answer = JStr [CHR 0xB2], explanation = []\<rparr>]"

text \<open>A world in which the file \<^verbatim>\<open>notes.txt\<close> can be read and the model process is
  missing.\<close>

definition sample_env :: gen_env where
  "sample_env = \<lparr>env_file = (\<lambda>p. if p = ''notes.txt'' then Some (Inr ''2+2=4'') else None),
     env_model = (\<lambda>text n diff. Inl RuntimeError),
     env_loads = (\<lambda>t. None)\<rparr>"

text \<open>No recorded answer is negative.\<close>

definition nonneg_answers :: "app_state \<Rightarrow> bool" where
  "nonneg_answers s = (\<forall>j v. qcm_user_answers s j = Some v \<longrightarrow> 0 \<le> v)"

section \<open>The claims' words\<close>

text \<open>The definitions of this section are not code: they say in the words of the
  specification what the theorems below compare the code with.\<close>

subsection \<open>Extraction\<close>

text \<open>The text from the first \<open>a\<close> to the last \<open>b\<close> after it, if there is one.\<close>

definition greedy_span :: "char \<Rightarrow> char \<Rightarrow> string \<Rightarrow> string option" where
  "greedy_span a b t =
    (case dropWhile (\<lambda>x. x \<noteq> a) t of
       [] \<Rightarrow> None
     | x # u \<Rightarrow> if b \<in> set u then Some (x # rev (dropWhile (\<lambda>y. y \<noteq> b) (rev u))) else None)"

text \<open>The pattern \<^verbatim>\<open>a[\s\S]*b\<close> for two characters \<open>a\<close> and \<open>b\<close>.\<close>

definition re_span :: "char \<Rightarrow> char \<Rightarrow> regex" where
  "re_span a b = seqs [Cls (lit a), Star any_char, Cls (lit b)]"

text \<open>The values of \<^verbatim>\<open>json.loads\<close> on the strings that the examples below make the
  code decode: \<^verbatim>\<open>{}\<close> is the empty dictionary; \<^verbatim>\<open>{} and {}\<close> and \<^verbatim>\<open>Sure: {} done.\<close>
  are not JSON, and the decoder raises on them.\<close>

definition loads_sample :: "string \<Rightarrow> json option" where
  "loads_sample t = (if t = ''{}'' then Some (JDict []) else None)"

subsection \<open>Normalization\<close>

text \<open>The question entries of a decoded value: the value itself when it is a list, the
  list under \<^verbatim>\<open>questions\<close> (under \<^verbatim>\<open>quiz\<close> when there is no key \<^verbatim>\<open>questions\<close>) when
  it is a dictionary. An entry is well shaped when its question and its explanation are
  strings and its options a list or a dictionary (each after the defaults). Its recovered
  text is the stripped question, its options the stripped, non-empty ones; it survives
  when it is a dictionary with a non-empty text and at least two options.\<close>

definition quiz_entries :: "json \<Rightarrow> json list" where
  "quiz_entries data =
    (case data of
       JList xs \<Rightarrow> xs
     | JDict d \<Rightarrow>
        (case (if map_of d ''questions'' = None then dict_get d ''quiz''
               else dict_get d ''questions'') of
           JList xs \<Rightarrow> xs
         | _ \<Rightarrow> [])
     | _ \<Rightarrow> [])"

definition is_str :: "json \<Rightarrow> bool" where
  "is_str x = (case x of JStr s \<Rightarrow> True | _ \<Rightarrow> False)"

definition is_list :: "json \<Rightarrow> bool" where
  "is_list x = (case x of JList xs \<Rightarrow> True | _ \<Rightarrow> False)"

definition str_of :: "json \<Rightarrow> string" where
  "str_of x = (case x of JStr s \<Rightarrow> s | _ \<Rightarrow> [])"

definition list_of_json :: "json \<Rightarrow> json list" where
  "list_of_json x = (case x of JList xs \<Rightarrow> xs | _ \<Rightarrow> [])"

definition well_shaped_entry :: "json \<Rightarrow> bool" where
  "well_shaped_entry q =
    (case q of
       JDict d \<Rightarrow> is_str (entry_question d) \<and> is_str (entry_explanation d) \<and> is_list (entry_opts d)
     | _ \<Rightarrow> True)"

definition entry_text :: "json \<Rightarrow> string" where
  "entry_text q = (case q of JDict d \<Rightarrow> py_strip (str_of (entry_question d)) | _ \<Rightarrow> [])"

definition entry_options :: "json \<Rightarrow> string list" where
  "entry_options q =
    (case q of JDict d \<Rightarrow> map py_str (list_of_json (entry_opts d)) | _ \<Rightarrow> [])"

definition entry_survives :: "json \<Rightarrow> bool" where
  "entry_survives q =
    (case q of JDict d \<Rightarrow> entry_text q \<noteq> [] \<and> 2 \<le> length (entry_options q) | _ \<Rightarrow> False)"

definition entry_canonical :: "json \<Rightarrow> qcm_question" where
  "entry_canonical q =
    (case q of
       JDict d \<Rightarrow> \<lparr>question = entry_text q, options = entry_options q,
                    answer = entry_answer d,
                    explanation = py_strip (str_of (entry_explanation d))\<rparr>
     | _ \<Rightarrow> \<lparr>question = [], options = [], answer = JNull, explanation = []\<rparr>)"

text \<open>A number zero or \<^verbatim>\<open>False\<close>; and a value that is absent, \<^verbatim>\<open>None\<close> or empty.\<close>

definition zero_like :: "json \<Rightarrow> bool" where
  "zero_like x = (x = JInt 0 \<or> x = JBool False \<or> x = JFloat ''0.0'' \<or> x = JFloat ''-0.0'')"

definition absent_or_empty :: "json \<Rightarrow> bool" where
  "absent_or_empty x = (x = JNull \<or> x = JStr [] \<or> x = JList [] \<or> x = JDict [])"

subsection \<open>Scoring\<close>

text \<open>The number of questions, counted from the index \<open>idx\<close>, whose resolved correct
  index is known and is the recorded choice of the question.\<close>

fun correct_count :: "qcm_question list \<Rightarrow> int \<Rightarrow> (int \<Rightarrow> int option) \<Rightarrow> int" where
  "correct_count [] idx answers = 0"
| "correct_count (q # qs) idx answers =
    (case answer_to_index (answer q) (options q) of
       Inr (Some c) \<Rightarrow> (if answers idx = Some c then 1 else 0)
     | _ \<Rightarrow> 0) + correct_count qs (idx + 1) answers"

subsection \<open>Samples\<close>

text \<open>A decoded payload with five entries, of which the first and the last survive.\<close>

definition sample_payload :: json where
  "sample_payload = JList [
     JDict [(''question'', JStr ''Q1''), (''options'', JList [JStr ''a'', JStr '' b '']),
            (''answer'', JStr ''A'')],
     JInt 3,
     JDict [(''q'', JStr ''  ''), (''options'', JList [JStr ''a'', JStr ''b''])],
     JDict [(''question'', JStr ''Q3''), (''choices'', JList [JStr ''only'', JStr ''  ''])],
     JDict [(''q'', JStr ''Q4''), (''answers'', JDict [(''B'', JStr ''y''), (''A'', JStr ''x'')]),
            (''correct'', JInt 1), (''correct_answer'', JStr ''A''), (''exp'', JStr '' e '')]]"

definition sample_entry :: "(string \<times> json) list" where
  "sample_entry = [(''question'', JStr ''Q''), (''options'', JList [JStr ''x'', JStr ''y'']),
     (''correct'', JInt 1), (''correct_answer'', JStr ''A'')]"

section \<open>Properties\<close>

text \<open>
  Claim C4. Text-block parsing of the six lines
  \<^verbatim>\<open>Q1: What is 2+2?\<close>, \<^verbatim>\<open>A) 3\<close>, \<^verbatim>\<open>B) 4\<close>, \<^verbatim>\<open>C) 5\<close>, \<^verbatim>\<open>ANSWER: B\<close>,
  \<^verbatim>\<open>EXPLANATION: Basic arithmetic.\<close> gives exactly one question, with the text
  \<^verbatim>\<open>What is 2+2?\<close>, the three options \<^verbatim>\<open>A) 3\<close>, \<^verbatim>\<open>B) 4\<close>, \<^verbatim>\<open>C) 5\<close> in that order, the
  raw answer \<^verbatim>\<open>B\<close> and the explanation \<^verbatim>\<open>Basic arithmetic.\<close>
\<close>

theorem parse_qcm_from_text_example:
  "parse_qcm_from_text
     ''Q1: What is 2+2?\<newline>A) 3\<newline>B) 4\<newline>C) 5\<newline>ANSWER: B\<newline>EXPLANATION: Basic arithmetic.'' =
   JDict [(''questions'', JList [
     JDict [(''question'', JStr ''What is 2+2?''),
            (''options'', JList [JStr ''A) 3'', JStr ''B) 4'', JStr ''C) 5'']),
            (''answer'', JStr ''B''),
            (''explanation'', JStr ''Basic arithmetic.'')]])]"
  by code_simp

subsection \<open>The session under navigation\<close>

lemma save_choice_simps:
  "qcm_index (qcm_save_choice s) = qcm_index s"
  "qcm_data (qcm_save_choice s) = qcm_data s"
  "qcm_choice_var (qcm_save_choice s) = qcm_choice_var s"
  "qcm_user_answers (qcm_save_choice s) =
     (if 0 \<le> qcm_choice_var s then (qcm_user_answers s)(qcm_index s \<mapsto> qcm_choice_var s)
      else qcm_user_answers s)"
  by (simp_all add: qcm_save_choice_def Let_def)

lemma set_qcm_enabled_simps:
  "qcm_index (set_qcm_enabled b s) = qcm_index s"
  "qcm_data (set_qcm_enabled b s) = qcm_data s"
  "qcm_choice_var (set_qcm_enabled b s) = qcm_choice_var s"
  "qcm_user_answers (set_qcm_enabled b s) = qcm_user_answers s"
  "qcm_status (set_qcm_enabled b s) = qcm_status s"
  by (simp_all add: set_qcm_enabled_def split: option.splits)

lemma render_frame:
  "qcm_index (fst (qcm_render_question s)) = qcm_index s"
  "qcm_data (fst (qcm_render_question s)) = qcm_data s"
  "qcm_user_answers (fst (qcm_render_question s)) = qcm_user_answers s"
  by (simp_all add: qcm_render_question_def set_qcm_enabled_simps split: option.splits sum.splits)

lemma render_ok:
  "loaded s \<Longrightarrow> snd (qcm_render_question s) = None"
  by (auto simp: loaded_def qcm_render_question_def py_index_def split: option.splits sum.splits)

lemma next_frame:
  "qcm_data (fst (qcm_next s)) = qcm_data s"
  "qcm_user_answers (fst (qcm_next s)) =
     (if qcm_data s = None then qcm_user_answers s else qcm_user_answers (qcm_save_choice s))"
  by (simp_all add: qcm_next_def Let_def render_frame save_choice_simps split: option.splits)

lemma prev_frame:
  "qcm_data (fst (qcm_prev s)) = qcm_data s"
  "qcm_user_answers (fst (qcm_prev s)) =
     (if qcm_data s = None then qcm_user_answers s else qcm_user_answers (qcm_save_choice s))"
  by (simp_all add: qcm_prev_def Let_def render_frame save_choice_simps split: option.splits)

lemma next_index:
  "qcm_data s = Some qs \<Longrightarrow> qcm_index (fst (qcm_next s)) =
     (if qcm_index s < int (length qs) - 1 then qcm_index s + 1 else qcm_index s)"
  by (simp add: qcm_next_def Let_def render_frame save_choice_simps)

lemma prev_index:
  "qcm_data s = Some qs \<Longrightarrow> qcm_index (fst (qcm_prev s)) =
     (if 0 < qcm_index s then qcm_index s - 1 else qcm_index s)"
  by (simp add: qcm_prev_def Let_def render_frame save_choice_simps)

lemma next_ok: "loaded s \<Longrightarrow> snd (qcm_next s) = None"
  by (auto simp: qcm_next_def Let_def loaded_def save_choice_simps intro!: render_ok split: option.splits)

lemma prev_ok: "loaded s \<Longrightarrow> snd (qcm_prev s) = None"
  by (auto simp: qcm_prev_def Let_def loaded_def save_choice_simps intro!: render_ok split: option.splits)

lemma next_loaded: "loaded s \<Longrightarrow> loaded (fst (qcm_next s))"
  by (auto simp: loaded_def next_frame save_choice_simps next_index split: option.splits)

lemma prev_loaded: "loaded s \<Longrightarrow> loaded (fst (qcm_prev s))"
  by (auto simp: loaded_def prev_frame save_choice_simps prev_index split: option.splits)


lemma run_actions_Cons: "run_actions (a # as) s = run_actions as (step a s)"
  by (simp add: run_actions_def)

lemma nav_step_loaded: "is_nav a \<Longrightarrow> loaded s \<Longrightarrow> loaded (step a s)"
  by (auto simp: is_nav_def next_loaded prev_loaded)

lemma nav_step_answers:
  "is_nav a \<Longrightarrow> j \<noteq> qcm_index s \<Longrightarrow> qcm_user_answers (step a s) j = qcm_user_answers s j"
  by (auto simp: is_nav_def next_frame prev_frame save_choice_simps)

lemma nav_run_answers:
  "list_all is_nav acts \<Longrightarrow> j \<notin> set (visited acts s) \<Longrightarrow>
     qcm_user_answers (run_actions acts s) j = qcm_user_answers s j"
proof (induction acts arbitrary: s)
  case Nil
  then show ?case by (simp add: run_actions_def)
next
  case (Cons a as)
  from Cons.prems have nav: "is_nav a" and rest: "list_all is_nav as"
    and here: "j \<noteq> qcm_index s" and later: "j \<notin> set (visited as (step a s))"
    by simp_all
  have "qcm_user_answers (run_actions as (step a s)) j = qcm_user_answers (step a s) j"
    using Cons.IH [OF rest later] .
  also have "\<dots> = qcm_user_answers s j"
    using nav_step_answers [OF nav here] .
  finally show ?case by (simp add: run_actions_Cons)
qed

text \<open>
  Claim C6. In a loaded session, \<^verbatim>\<open>qcm_next\<close> moves the current index one up unless it
  is at the last question, and \<^verbatim>\<open>qcm_prev\<close> one down unless it is at 0; at the boundary
  the index stays (no wraparound), and neither raises. Both first record the displayed
  selection (when there is one, that is when the radio variable is not negative) at the
  index before the move, and change the recorded answer of no other index. So after any
  sequence of \<^verbatim>\<open>qcm_prev\<close> and \<^verbatim>\<open>qcm_next\<close> the recorded answer of an index that the
  sequence did not visit is what it was.
\<close>

theorem qcm_prev_next_navigation:
  assumes "qcm_data s = Some qs" and "0 \<le> qcm_index s" and "qcm_index s < int (length qs)"
  shows "snd (qcm_next s) = None \<and> snd (qcm_prev s) = None
    \<and> qcm_index (fst (qcm_next s)) =
        (if qcm_index s = int (length qs) - 1 then qcm_index s else qcm_index s + 1)
    \<and> qcm_index (fst (qcm_prev s)) = (if qcm_index s = 0 then qcm_index s else qcm_index s - 1)
    \<and> qcm_user_answers (fst (qcm_next s)) =
        (if 0 \<le> qcm_choice_var s then (qcm_user_answers s)(qcm_index s \<mapsto> qcm_choice_var s)
         else qcm_user_answers s)
    \<and> qcm_user_answers (fst (qcm_prev s)) =
        (if 0 \<le> qcm_choice_var s then (qcm_user_answers s)(qcm_index s \<mapsto> qcm_choice_var s)
         else qcm_user_answers s)
    \<and> (\<forall>j. j \<noteq> qcm_index s \<longrightarrow>
          qcm_user_answers (fst (qcm_next s)) j = qcm_user_answers s j
        \<and> qcm_user_answers (fst (qcm_prev s)) j = qcm_user_answers s j)
    \<and> (\<forall>acts j. list_all is_nav acts \<longrightarrow> j \<notin> set (visited acts s) \<longrightarrow>
          qcm_user_answers (run_actions acts s) j = qcm_user_answers s j)"
proof -
  have l: "loaded s" using assms by (simp add: loaded_def)
  have a: "snd (qcm_next s) = None" "snd (qcm_prev s) = None"
    using l by (rule next_ok, rule prev_ok)
  have b: "qcm_index (fst (qcm_next s)) =
        (if qcm_index s = int (length qs) - 1 then qcm_index s else qcm_index s + 1)"
    using assms by (simp add: next_index)
  have c: "qcm_index (fst (qcm_prev s)) = (if qcm_index s = 0 then qcm_index s else qcm_index s - 1)"
    using assms by (simp add: prev_index)
  have d: "qcm_user_answers (fst (qcm_next s)) =
        (if 0 \<le> qcm_choice_var s then (qcm_user_answers s)(qcm_index s \<mapsto> qcm_choice_var s)
         else qcm_user_answers s)"
    "qcm_user_answers (fst (qcm_prev s)) =
        (if 0 \<le> qcm_choice_var s then (qcm_user_answers s)(qcm_index s \<mapsto> qcm_choice_var s)
         else qcm_user_answers s)"
    using assms by (simp_all add: next_frame prev_frame save_choice_simps)
  have e: "\<forall>j. j \<noteq> qcm_index s \<longrightarrow>
          qcm_user_answers (fst (qcm_next s)) j = qcm_user_answers s j
        \<and> qcm_user_answers (fst (qcm_prev s)) j = qcm_user_answers s j"
    by (simp add: d)
  have f: "\<forall>acts j. list_all is_nav acts \<longrightarrow> j \<notin> set (visited acts s) \<longrightarrow>
          qcm_user_answers (run_actions acts s) j = qcm_user_answers s j"
    by (simp add: nav_run_answers)
  show ?thesis using a b c d e f by blast
qed


lemma length_sample_quiz: "length sample_quiz = 3"
  by (simp add: sample_quiz_def)

theorem qcm_prev_next_navigation_witness:
  "qcm_index (fst (qcm_next sample_state)) = 1
   \<and> qcm_index (fst (qcm_prev sample_state)) = 0
   \<and> qcm_user_answers (fst (qcm_next sample_state)) 0 = Some 1
   \<and> qcm_user_answers (fst (qcm_next sample_state)) 2 = Some 1
   \<and> qcm_user_answers (run_actions [Next, Prev, Next] sample_state) 2 = Some 1"
proof -
  have d: "qcm_data sample_state = Some sample_quiz"
    and i: "qcm_index sample_state = 0" and c: "qcm_choice_var sample_state = 1"
    and a: "qcm_user_answers sample_state = [2 \<mapsto> 1]"
    by (simp_all add: sample_state_def)
  have i1: "qcm_index (step Next sample_state) = 1"
    using d i by (simp add: next_index length_sample_quiz)
  have d1: "qcm_data (step Next sample_state) = Some sample_quiz"
    using d by (simp add: next_frame)
  have i2: "qcm_index (step Prev (step Next sample_state)) = 0"
    using d1 i1 by (simp add: prev_index)
  have v: "visited [Next, Prev, Next] sample_state = [0, 1, 0]"
    using i i1 i2 by simp
  have n: "list_all is_nav [Next, Prev, Next]" by (simp add: is_nav_def)
  show ?thesis
    using qcm_prev_next_navigation [of sample_state sample_quiz] d i c a v n
    by (simp add: length_sample_quiz)
qed


subsection \<open>The session under generation\<close>

lemma session_set_qcm_enabled: "session (set_qcm_enabled b s) = session s"
  by (simp add: session_def set_qcm_enabled_simps)

lemma session_on_generate_error: "session (on_generate_error s) = session s"
  by (simp add: on_generate_error_def session_set_qcm_enabled) (simp add: session_def)

lemma session_render: "session (fst (qcm_render_question s)) = session s"
  by (simp add: session_def render_frame)

lemma normalize_qcm_nonempty: "normalize_qcm d = Inr (Some out) \<Longrightarrow> out \<noteq> []"
  by (auto simp: normalize_qcm_def Let_def split: if_splits json.splits list.splits sum.splits)

lemma generate_quiz_nonempty: "generate_quiz env text n diff = Inr data \<Longrightarrow> data \<noteq> []"
  by (auto simp: generate_quiz_def dest: normalize_qcm_nonempty split: sum.splits option.splits)

lemma generate_quiz_model_raises:
  "env_model env text n diff = Inl e \<Longrightarrow> generate_quiz env text n diff = Inl e"
  by (simp add: generate_quiz_def)

lemma generate_quiz_unparseable:
  "env_model env text n diff = Inr raw \<Longrightarrow>
   normalize_qcm (extract_json_obj (env_loads env) raw) = Inr None \<Longrightarrow>
   normalize_qcm (parse_qcm_from_text raw) = Inr None \<Longrightarrow>
   generate_quiz env text n diff = Inl ValueError"
  by (simp add: generate_quiz_def)

lemma gui_generate_qcm_success:
  assumes "qcm_path s \<noteq> []"
    and "env_file env (qcm_path s) = Some (Inr contents)"
    and "py_strip contents \<noteq> []"
    and "qcm_n_var s = Some n"
    and "generate_quiz env (py_strip contents) n (py_strip (qcm_diff_var s)) = Inr data"
  shows "session (gui_generate_qcm env s) = (Some data, 0, Map.empty)"
proof -
  let ?s0 = "set_qcm_enabled False (s\<lparr>qcm_status := StatusGenerating\<rparr>)"
  let ?s1 = "?s0\<lparr>qcm_data := Some data, qcm_index := 0, qcm_user_answers := Map.empty\<rparr>"
  let ?s2 = "set_qcm_enabled True (?s1\<lparr>qcm_status := StatusGenerated (length data)\<rparr>)"
  have ne: "data \<noteq> []" using assms(5) by (rule generate_quiz_nonempty)
  have s2: "session ?s2 = (Some data, 0, Map.empty)"
    by (simp add: session_set_qcm_enabled) (simp add: session_def)
  then have "loaded ?s2" using ne by (simp add: loaded_def session_def)
  then have ok: "snd (qcm_render_question ?s2) = None" by (rule render_ok)
  obtain s3 where r: "qcm_render_question ?s2 = (s3, None)"
    using ok by (cases "qcm_render_question ?s2") auto
  have "session s3 = session ?s2" using session_render [of ?s2] r by simp
  then have "session (s3\<lparr>qcm_correction := [correction_placeholder]\<rparr>) = (Some data, 0, Map.empty)"
    using s2 by (simp add: session_def)
  moreover have "gui_generate_qcm env s = s3\<lparr>qcm_correction := [correction_placeholder]\<rparr>"
    using assms r by (simp add: gui_generate_qcm_def Let_def)
  ultimately show ?thesis by simp
qed

lemma gui_generate_qcm_failure:
  assumes "\<not> (\<exists>contents n data. qcm_path s \<noteq> []
     \<and> env_file env (qcm_path s) = Some (Inr contents)
     \<and> py_strip contents \<noteq> [] \<and> qcm_n_var s = Some n
     \<and> generate_quiz env (py_strip contents) n (py_strip (qcm_diff_var s)) = Inr data)"
  shows "session (gui_generate_qcm env s) = session s"
proof (cases "qcm_path s = []")
  case True
  then show ?thesis by (simp add: gui_generate_qcm_def)
next
  case path: False
  show ?thesis
  proof (cases "env_file env (qcm_path s)")
    case None
    then show ?thesis using path by (simp add: gui_generate_qcm_def)
  next
    case (Some r)
    show ?thesis
    proof (cases r)
      case (Inl e)
      then show ?thesis using path Some
        by (simp add: gui_generate_qcm_def session_on_generate_error)
    next
      case (Inr contents)
      show ?thesis
      proof (cases "py_strip contents = []")
        case True
        then show ?thesis using path Some Inr by (simp add: gui_generate_qcm_def)
      next
        case tx: False
        show ?thesis
        proof (cases "qcm_n_var s")
          case None
          then show ?thesis using path Some Inr tx
            by (simp add: gui_generate_qcm_def session_on_generate_error)
        next
          case n: (Some n)
          show ?thesis
          proof (cases "generate_quiz env (py_strip contents) n (py_strip (qcm_diff_var s))")
            case (Inl e)
            have "session (set_qcm_enabled False (s\<lparr>qcm_status := StatusGenerating\<rparr>)) = session s"
              by (simp add: session_set_qcm_enabled) (simp add: session_def)
            then show ?thesis using path Some Inr tx n Inl
              by (simp add: gui_generate_qcm_def Let_def session_on_generate_error)
          next
            case (Inr data)
            with assms path Some \<open>r = Inr contents\<close> tx n show ?thesis by blast
          qed
        qed
      qed
    qed
  qed
qed



text \<open>
  Claim C9. When generating a quiz fails, the session (the stored quiz, the current index
  and the recorded answers) is after the action what it was before it: when the call of
  the model raises, and when neither the JSON reading nor the text reading of the model's
  output gives a quiz. When generation succeeds the session is the new quiz, which has
  at least one question, the index 0 and no recorded answer. The session changes in no
  other case: no partial quiz is ever installed.
\<close>

theorem gui_generate_qcm_session:
  "(\<forall>contents n e. qcm_path s \<noteq> [] \<and> env_file env (qcm_path s) = Some (Inr contents)
        \<and> py_strip contents \<noteq> [] \<and> qcm_n_var s = Some n
        \<and> env_model env (py_strip contents) n (py_strip (qcm_diff_var s)) = Inl e
      \<longrightarrow> session (gui_generate_qcm env s) = session s)
   \<and> (\<forall>contents n raw. qcm_path s \<noteq> [] \<and> env_file env (qcm_path s) = Some (Inr contents)
        \<and> py_strip contents \<noteq> [] \<and> qcm_n_var s = Some n
        \<and> env_model env (py_strip contents) n (py_strip (qcm_diff_var s)) = Inr raw
        \<and> normalize_qcm (extract_json_obj (env_loads env) raw) = Inr None
        \<and> normalize_qcm (parse_qcm_from_text raw) = Inr None
      \<longrightarrow> session (gui_generate_qcm env s) = session s)
   \<and> (\<forall>contents n data. qcm_path s \<noteq> [] \<and> env_file env (qcm_path s) = Some (Inr contents)
        \<and> py_strip contents \<noteq> [] \<and> qcm_n_var s = Some n
        \<and> generate_quiz env (py_strip contents) n (py_strip (qcm_diff_var s)) = Inr data
      \<longrightarrow> data \<noteq> [] \<and> session (gui_generate_qcm env s) = (Some data, 0, Map.empty))
   \<and> (session (gui_generate_qcm env s) = session s
      \<or> (\<exists>contents n data. qcm_path s \<noteq> [] \<and> env_file env (qcm_path s) = Some (Inr contents)
        \<and> py_strip contents \<noteq> [] \<and> qcm_n_var s = Some n
        \<and> generate_quiz env (py_strip contents) n (py_strip (qcm_diff_var s)) = Inr data
        \<and> session (gui_generate_qcm env s) = (Some data, 0, Map.empty)))"
proof -
  have a: "session (gui_generate_qcm env s) = session s"
    if "qcm_path s \<noteq> []" "env_file env (qcm_path s) = Some (Inr contents)"
       "py_strip contents \<noteq> []" "qcm_n_var s = Some n"
       "env_model env (py_strip contents) n (py_strip (qcm_diff_var s)) = Inl e"
    for contents n e
  proof (rule gui_generate_qcm_failure, rule notI, elim exE conjE)
    fix c m d
    assume "env_file env (qcm_path s) = Some (Inr c)" and "qcm_n_var s = Some m"
      and "generate_quiz env (py_strip c) m (py_strip (qcm_diff_var s)) = Inr d"
    with that generate_quiz_model_raises [OF that(5)] show False by simp
  qed
  have b: "session (gui_generate_qcm env s) = session s"
    if "qcm_path s \<noteq> []" "env_file env (qcm_path s) = Some (Inr contents)"
       "py_strip contents \<noteq> []" "qcm_n_var s = Some n"
       "env_model env (py_strip contents) n (py_strip (qcm_diff_var s)) = Inr raw"
       "normalize_qcm (extract_json_obj (env_loads env) raw) = Inr None"
       "normalize_qcm (parse_qcm_from_text raw) = Inr None"
    for contents n raw
  proof (rule gui_generate_qcm_failure, rule notI, elim exE conjE)
    fix c m d
    assume "env_file env (qcm_path s) = Some (Inr c)" and "qcm_n_var s = Some m"
      and "generate_quiz env (py_strip c) m (py_strip (qcm_diff_var s)) = Inr d"
    with that generate_quiz_unparseable [OF that(5) that(6) that(7)] show False by simp
  qed
  have c: "data \<noteq> [] \<and> session (gui_generate_qcm env s) = (Some data, 0, Map.empty)"
    if "qcm_path s \<noteq> []" "env_file env (qcm_path s) = Some (Inr contents)"
       "py_strip contents \<noteq> []" "qcm_n_var s = Some n"
       "generate_quiz env (py_strip contents) n (py_strip (qcm_diff_var s)) = Inr data"
    for contents n data
    using gui_generate_qcm_success [OF that] generate_quiz_nonempty [OF that(5)] by simp
  have d: "session (gui_generate_qcm env s) = session s
      \<or> (\<exists>contents n data. qcm_path s \<noteq> [] \<and> env_file env (qcm_path s) = Some (Inr contents)
        \<and> py_strip contents \<noteq> [] \<and> qcm_n_var s = Some n
        \<and> generate_quiz env (py_strip contents) n (py_strip (qcm_diff_var s)) = Inr data
        \<and> session (gui_generate_qcm env s) = (Some data, 0, Map.empty))"
    using gui_generate_qcm_failure [of s env] gui_generate_qcm_success [of s env] by blast
  show ?thesis using a b c d by blast
qed

theorem gui_generate_qcm_session_witness:
  "session (gui_generate_qcm sample_env (sample_state\<lparr>qcm_path_var := ''notes.txt''\<rparr>))
     = (Some sample_quiz, 0, [2 \<mapsto> 1])"
proof -
  let ?s = "sample_state\<lparr>qcm_path_var := ''notes.txt''\<rparr>"
  have p: "qcm_path ?s = ''notes.txt''"
    by (simp add: qcm_path_def strip_quotes_def py_strip_def py_rstrip_def py_lstrip_def
        py_isspace_def cp_def)
  have t: "py_strip ''2+2=4'' = ''2+2=4''"
    by (simp add: py_strip_def py_rstrip_def py_lstrip_def py_isspace_def cp_def)
  have "session (gui_generate_qcm sample_env ?s) = session ?s"
    using gui_generate_qcm_session [of ?s sample_env] p t
    by (simp add: sample_env_def sample_state_def init_state_def)
  then show ?thesis by (simp add: session_def sample_state_def)
qed

subsection \<open>Recorded answers are never negative\<close>

lemma save_choice_nonneg: "nonneg_answers s \<Longrightarrow> nonneg_answers (qcm_save_choice s)"
  by (simp add: nonneg_answers_def save_choice_simps)

lemma finish_frame:
  "qcm_user_answers (fst (qcm_finish s)) =
     (if qcm_data s = None then qcm_user_answers s else qcm_user_answers (qcm_save_choice s))"
  by (simp add: qcm_finish_def Let_def save_choice_simps split: option.splits sum.splits)

lemma generate_answers:
  "qcm_user_answers (gui_generate_qcm env s) = qcm_user_answers s
   \<or> qcm_user_answers (gui_generate_qcm env s) = Map.empty"
  using gui_generate_qcm_failure [of s env] gui_generate_qcm_success [of s env]
  by (auto simp: session_def)

lemma step_nonneg: "nonneg_answers s \<Longrightarrow> nonneg_answers (step a s)"
proof (cases a)
  case (Generate env)
  assume "nonneg_answers s"
  then show ?thesis using generate_answers [of env s] Generate
    by (auto simp: nonneg_answers_def)
next
  case (Select i)
  assume "nonneg_answers s"
  then show ?thesis using Select
    by (simp add: nonneg_answers_def select_choice_def qcm_save_choice_def Let_def)
qed (auto simp: nonneg_answers_def next_frame prev_frame finish_frame save_choice_simps)

lemma run_nonneg: "nonneg_answers s \<Longrightarrow> nonneg_answers (run_actions acts s)"
  by (induction acts arbitrary: s) (simp_all add: run_actions_def step_nonneg)

text \<open>
  Claim C10. Saving the displayed selection does nothing when the radio variable is
  negative (no selection). So after any sequence of actions (generating a quiz, selecting
  an option, \<^verbatim>\<open>qcm_prev\<close>, \<^verbatim>\<open>qcm_next\<close>, \<^verbatim>\<open>qcm_finish\<close>, in any order and also where one
  of them raises) from the initial state, or from any state whose recorded answers are
  not negative, every recorded answer is greater than or equal to 0.
\<close>

theorem answers_never_negative:
  "(qcm_choice_var s < 0 \<longrightarrow> qcm_save_choice s = s)
   \<and> (\<forall>j v. qcm_user_answers (run_actions acts init_state) j = Some v \<longrightarrow> 0 \<le> v)
   \<and> ((\<forall>j v. qcm_user_answers s j = Some v \<longrightarrow> 0 \<le> v)
        \<longrightarrow> (\<forall>j v. qcm_user_answers (run_actions acts s) j = Some v \<longrightarrow> 0 \<le> v))"
proof -
  have "nonneg_answers init_state" by (simp add: nonneg_answers_def init_state_def)
  then have "nonneg_answers (run_actions acts init_state)" by (rule run_nonneg)
  moreover have "qcm_choice_var s < 0 \<longrightarrow> qcm_save_choice s = s"
    by (simp add: qcm_save_choice_def Let_def)
  ultimately show ?thesis using run_nonneg [of s acts] by (simp add: nonneg_answers_def)
qed

theorem answers_never_negative_witness:
  "qcm_save_choice (sample_state\<lparr>qcm_choice_var := - 1\<rparr>) = sample_state\<lparr>qcm_choice_var := - 1\<rparr>
   \<and> qcm_user_answers (run_actions [Select 1, Next, Select 0] sample_state) 1 = Some 0
   \<and> (0::int) \<le> the (qcm_user_answers (run_actions [Select 1, Next, Select 0] sample_state) 1)"
proof -
  have d: "qcm_data sample_state = Some sample_quiz"
    and i: "qcm_index sample_state = 0" and c: "qcm_choice_var sample_state = 1"
    and a: "qcm_user_answers sample_state = [2 \<mapsto> 1]"
    by (simp_all add: sample_state_def)
  have d1: "qcm_data (select_choice 1 sample_state) = Some sample_quiz"
    and i1: "qcm_index (select_choice 1 sample_state) = 0"
    using d i by (simp_all add: select_choice_def save_choice_simps)
  have i2: "qcm_index (fst (qcm_next (select_choice 1 sample_state))) = 1"
    using d1 i1 by (simp add: next_index length_sample_quiz)
  have r: "qcm_user_answers (run_actions [Select 1, Next, Select 0] sample_state) 1 = Some 0"
    using i2 by (simp add: run_actions_def select_choice_def save_choice_simps)
  have h: "\<forall>j v. qcm_user_answers sample_state j = Some v \<longrightarrow> 0 \<le> v"
    by (simp add: a)
  show ?thesis
    using answers_never_negative [of "sample_state\<lparr>qcm_choice_var := - 1\<rparr>" "[Select 1, Next, Select 0]"]
      answers_never_negative [of sample_state "[Select 1, Next, Select 0]"] h r
    by simp
qed


subsection \<open>Blocks without two options\<close>

lemma map_filter_skip:
  "f b = None \<Longrightarrow> List.map_filter f (bs1 @ b # bs2) = List.map_filter f bs1 @ List.map_filter f bs2"
  by (simp add: List.map_filter_def)

text \<open>
  Claim C8. A block in which the multi-line pattern finds fewer than two option lines and
  the inline pattern fewer than two options (both on the block's text after its head,
  with the answer and explanation sections cut off) gives no question: the loop goes on
  to the next block, and the questions of a text are the questions of its other blocks.
  The block \<^verbatim>\<open>Q1: What?\<close>, \<^verbatim>\<open>A) only\<close>, \<^verbatim>\<open>ANSWER: A\<close>, with one option line, is one.
\<close>

theorem block_without_two_options:
  assumes "re_match re_block_head block = Some m"
    and "rest_clean = clean_rest (py_strip (m_group block m 2))"
    and "length (re_finditer re_option_line rest_clean) < 2"
    and "length (re_findall2 re_option_inline rest_clean) < 2"
  shows "parse_block block = None
    \<and> List.map_filter parse_block (bs1 @ block # bs2) =
        List.map_filter parse_block bs1 @ List.map_filter parse_block bs2"
proof -
  have "parse_block block = None"
    using assms by (simp add: parse_block_def Let_def)
  then show ?thesis by (simp add: map_filter_skip)
qed

lemma one_option_head:
  "re_match re_block_head ''Q1: What?\<newline>A) only\<newline>ANSWER: A'' = Some (0, 27, [(2, 4, 27), (1, 1, 2)])"
  by code_simp

lemma one_option_clean:
  "clean_rest (py_strip (m_group ''Q1: What?\<newline>A) only\<newline>ANSWER: A'' (0, 27, [(2, 4, 27), (1, 1, 2)]) 2))
     = ''What?\<newline>A) only\<newline>''"
  by code_simp

lemma one_option_lines:
  "re_finditer re_option_line ''What?\<newline>A) only\<newline>'' = [(6, 13, [(2, 9, 13), (1, 6, 7)])]"
  by code_simp

lemma one_option_inline:
  "re_findall2 re_option_inline ''What?\<newline>A) only\<newline>'' = [(''A'', ''only'')]"
  by code_simp

theorem block_without_two_options_witness:
  "parse_block ''Q1: What?\<newline>A) only\<newline>ANSWER: A'' = None
   \<and> List.map_filter parse_block [''Q1: What?\<newline>A) only\<newline>ANSWER: A''] = []"
  using block_without_two_options [OF one_option_head one_option_clean [symmetric], of "[]" "[]"]
  by (simp add: one_option_lines one_option_inline List.map_filter_def)

subsection \<open>The resolver and the score\<close>

text \<open>The four examples of the resolver; an index it gives is an index of the options;
  and when \<^verbatim>\<open>qcm_finish\<close> does not raise, the score it writes is the number of questions
  whose resolved index is known and is the recorded choice.\<close>

lemma answer_to_index_examples:
  "answer_to_index (JStr ''B'') [''x'', ''y'', ''z''] = Inr (Some 1)"
  "answer_to_index (JInt 2) [''x'', ''y'', ''z''] = Inr (Some 2)"
  "answer_to_index (JStr ''5'') [''x'', ''y''] = Inr None"
  "answer_to_index (JStr ''1'') [''x'', ''y''] = Inr (Some 1)"
  by code_simp+

lemma answer_to_index_in_range:
  "answer_to_index a opts = Inr (Some i) \<Longrightarrow> 0 \<le> i \<and> i < int (length opts)"
  by (cases a)
     (auto simp: answer_to_index_def Let_def split: if_splits option.splits sum.splits)

lemma finish_loop_score:
  "finish_loop qs idx answers score lines = Inr (sc, ls) \<Longrightarrow>
     sc = score + correct_count qs idx answers"
proof (induction qs arbitrary: idx score lines)
  case Nil
  then show ?case by simp
next
  case (Cons q qs)
  from Cons.prems show ?case
    by (auto simp: Let_def dest!: Cons.IH split: sum.splits option.splits if_splits)
qed

lemma qcm_finish_score:
  assumes "qcm_data s = Some qs" and "snd (qcm_finish s) = None"
  shows "qcm_status (fst (qcm_finish s)) =
    StatusFinished (correct_count qs 0 (qcm_user_answers (qcm_save_choice s))) (length qs)"
proof (cases "finish_loop qs 0 (qcm_user_answers (qcm_save_choice s)) 0 []")
  case (Inl e)
  then show ?thesis using assms by (simp add: qcm_finish_def Let_def)
next
  case (Inr sl)
  then have "fst sl = correct_count qs 0 (qcm_user_answers (qcm_save_choice s))"
    using finish_loop_score [of qs 0 _ 0 "[]" "fst sl" "snd sl"] by simp
  then show ?thesis using assms Inr by (simp add: qcm_finish_def Let_def)
qed

subsection \<open>Superscript digits\<close>

text \<open>
  Claim C1. The resolver should give an index or unknown for every raw answer. For the
  answer made of the one character U+00B2 (the superscript two) it raises: the string has no letter A to F,
  \<^verbatim>\<open>isdigit\<close> accepts it, and \<^verbatim>\<open>int\<close> rejects it with \<^verbatim>\<open>ValueError\<close>.
\<close>

theorem answer_to_index_superscript_digit:
  "answer_to_index (JStr [CHR 0xB2]) [''x'', ''y'', ''z''] = Inl ValueError"
  by code_simp

text \<open>
  Claim C5. \<^verbatim>\<open>qcm_finish\<close> should report a score for every loaded session. On the quiz
  whose answer key is the superscript two the resolver raises, so \<^verbatim>\<open>qcm_finish\<close> raises
  \<^verbatim>\<open>ValueError\<close> before it writes a score: the status and the correction are what they
  were.
\<close>

theorem qcm_finish_superscript_digit:
  "snd (qcm_finish (init_state\<lparr>qcm_data := Some superscript_quiz\<rparr>)) = Some ValueError
   \<and> qcm_status (fst (qcm_finish (init_state\<lparr>qcm_data := Some superscript_quiz\<rparr>))) = StatusNone
   \<and> qcm_correction (fst (qcm_finish (init_state\<lparr>qcm_data := Some superscript_quiz\<rparr>))) =
       [correction_placeholder]"
  by code_simp

subsection \<open>Normalization\<close>

lemma normalize_entry_well_shaped:
  "well_shaped_entry q \<Longrightarrow>
     normalize_entry q = Inr (if entry_survives q then Some (entry_canonical q) else None)"
  by (cases q)
     (auto simp: normalize_entry_def well_shaped_entry_def entry_survives_def entry_canonical_def
        entry_text_def entry_options_def is_str_def is_list_def str_of_def list_of_json_def
        val_strip_def opts_sized_def Let_def split: json.splits)

lemma normalize_loop_well_shaped:
  "list_all well_shaped_entry xs \<Longrightarrow>
     normalize_loop xs out = Inr (out @ map entry_canonical (filter entry_survives xs))"
  by (induction xs arbitrary: out) (simp_all add: normalize_entry_well_shaped)

text \<open>
  Where the normalizer does what it is meant to do. On a decoded value whose question
  entries are well shaped (the question text and the explanation of each entry are
  strings, its options a list or a dictionary) it does not raise; it drops exactly the
  entries that are no dictionaries, those whose stripped question text is empty and those
  with fewer than two stripped, non-empty options; it gives \<^verbatim>\<open>None\<close> if and only if no
  entry survives, and else the surviving questions in their order. Being well shaped is
  enough for this, not needed: options that are a string do not make the code raise.
\<close>

lemma normalize_qcm_well_shaped:
  assumes "list_all well_shaped_entry (quiz_entries data)"
  shows "normalize_qcm data =
    Inr (if filter entry_survives (quiz_entries data) = [] then None
         else Some (map entry_canonical (filter entry_survives (quiz_entries data))))"
proof (cases data)
  case (JList xs)
  then show ?thesis using assms
    by (cases xs) (simp_all add: normalize_qcm_def quiz_entries_def dict_get_def
        normalize_loop_well_shaped del: normalize_loop.simps)
next
  case (JDict d)
  show ?thesis
  proof (cases "map_of d ''questions''")
    case None
    then show ?thesis using assms JDict
      by (cases "map_of d ''quiz''")
         (auto simp: normalize_qcm_def quiz_entries_def dict_get_def Let_def map_add_def
            normalize_loop_well_shaped simp del: normalize_loop.simps
            split: json.splits list.splits option.splits)
  next
    case (Some v)
    then show ?thesis using assms JDict
      by (auto simp: normalize_qcm_def quiz_entries_def dict_get_def Let_def
            normalize_loop_well_shaped simp del: normalize_loop.simps
            split: json.splits list.splits)
  qed
qed (simp_all add: normalize_qcm_def quiz_entries_def)


text \<open>
  Claim C2. The normalizer should never raise: an entry it cannot use is dropped, and
  \<^verbatim>\<open>None\<close> is the result when no entry survives. The code checks the type of the decoded
  value, of the question list, of each entry and of the options, and turns every option
  into a string with \<^verbatim>\<open>str\<close> before it strips it; the question and the explanation it
  strips as they are. On the payload whose only entry has the number 5 as its question
  (and two options) the call \<^verbatim>\<open>.strip()\<close> raises \<^verbatim>\<open>AttributeError\<close>, where the entry
  should have been dropped and the result \<^verbatim>\<open>None\<close>.
\<close>

theorem normalize_qcm_non_string_question:
  "normalize_qcm (JDict [(''questions'', JList [
      JDict [(''question'', JInt 5), (''options'', JList [JStr ''x'', JStr ''y''])]])])
   = Inl AttributeError"
  by code_simp

lemma sample_payload_well_shaped: "list_all well_shaped_entry (quiz_entries sample_payload)"
  by code_simp

lemma sample_payload_survivors:
  "(if filter entry_survives (quiz_entries sample_payload) = [] then None
    else Some (map entry_canonical (filter entry_survives (quiz_entries sample_payload)))) =
   Some [\<lparr>question = ''Q1'', options = [''a'', ''b''], answer = JStr ''A'', explanation = []\<rparr>,
         \<lparr>question = ''Q4'', options = [''A) x'', ''B) y''], answer = JInt 1,
           explanation = ''e''\<rparr>]"
  by code_simp

lemma normalize_qcm_sample_payload:
  "normalize_qcm sample_payload =
     Inr (Some [\<lparr>question = ''Q1'', options = [''a'', ''b''], answer = JStr ''A'',
                  explanation = []\<rparr>,
                \<lparr>question = ''Q4'', options = [''A) x'', ''B) y''], answer = JInt 1,
                  explanation = ''e''\<rparr>])"
  using normalize_qcm_well_shaped [OF sample_payload_well_shaped]
  by (simp only: sample_payload_survivors)

subsection \<open>The answer of an entry\<close>

lemma py_truthy_iff: "py_truthy x = (\<not> zero_like x \<and> \<not> absent_or_empty x)"
  by (cases x) (auto simp: zero_like_def absent_or_empty_def)

lemma normalize_entry_answer:
  "normalize_entry (JDict d) = Inr (Some r) \<Longrightarrow> answer r = entry_answer d"
  by (auto simp: normalize_entry_def Let_def split: sum.splits if_splits)

text \<open>
  Claim C7, amended. For every question dictionary that normalization keeps and in which
  neither \<^verbatim>\<open>answer\<close> nor \<^verbatim>\<open>correct\<close> holds a number zero or \<^verbatim>\<open>False\<close>: the raw answer
  is the value of \<^verbatim>\<open>answer\<close>, unchanged, when that value is there and is not \<^verbatim>\<open>None\<close>
  or empty; only else is \<^verbatim>\<open>correct\<close> read, in the same way; and only when neither gives
  a value is the answer what \<^verbatim>\<open>correct_answer\<close> holds, \<^verbatim>\<open>None\<close> when the key is absent.
\<close>

theorem normalize_answer_priority:
  assumes "normalize_entry (JDict d) = Inr (Some r)"
    and "\<not> zero_like (dict_get d ''answer'')" and "\<not> zero_like (dict_get d ''correct'')"
  shows "answer r =
    (if \<not> absent_or_empty (dict_get d ''answer'') then dict_get d ''answer''
     else if \<not> absent_or_empty (dict_get d ''correct'') then dict_get d ''correct''
     else dict_get d ''correct_answer'')"
  using assms normalize_entry_answer [OF assms(1)]
  by (simp add: entry_answer_def py_or_def py_truthy_iff)

text \<open>As the claim states it, by the presence of the key, it fails: with the key
  \<^verbatim>\<open>answer\<close> present and empty the answer is taken from \<^verbatim>\<open>correct\<close>.\<close>

theorem normalize_answer_priority_counterexample:
  "normalize_entry (JDict [(''question'', JStr ''Q''), (''options'', JList [JStr ''x'', JStr ''y'']),
       (''answer'', JStr []), (''correct'', JStr ''B'')])
   = Inr (Some \<lparr>question = ''Q'', options = [''x'', ''y''], answer = JStr ''B'', explanation = []\<rparr>)"
  by code_simp

lemma sample_entry_kept:
  "normalize_entry (JDict sample_entry) =
     Inr (Some \<lparr>question = ''Q'', options = [''x'', ''y''], answer = JInt 1, explanation = []\<rparr>)"
  by code_simp

theorem normalize_answer_priority_witness:
  "\<not> zero_like (dict_get sample_entry ''answer'') \<and> \<not> zero_like (dict_get sample_entry ''correct'')
   \<and> answer \<lparr>question = ''Q'', options = [''x'', ''y''], answer = JInt 1, explanation = []\<rparr>
       = dict_get sample_entry ''correct''"
  using normalize_answer_priority [OF sample_entry_kept]
  by (simp add: zero_like_def absent_or_empty_def dict_get_def sample_entry_def)

subsection \<open>Extraction\<close>

lemma run_any_char: "run any_char t k = length t - k"
proof -
  have "takeWhile any_char (drop k t) = drop k t"
    by (simp add: any_char_def)
  then show ?thesis unfolding run_def by (simp only: length_drop)
qed

lemma upt_split: "i \<le> j \<Longrightarrow> j < k \<Longrightarrow> [i ..< k] = [i ..< j] @ j # [Suc j ..< k]"
  using upt_add_eq_append [of i j "k - j"] upt_conv_Cons [of j k] by simp

lemma concat_map_if: "concat (map (\<lambda>j. if P j then [f j] else []) xs) = map f (filter P xs)"
  by (induction xs) auto

lemma rmatch_star_cls:
  assumes "k \<le> length t"
  shows "rmatch (Seq (Star any_char) (Cls (lit b))) t k c =
    map (\<lambda>j. (Suc j, c)) (filter (\<lambda>j. t ! j = b) (rev [k ..< length t]))"
proof -
  have up: "[k ..< Suc (k + (length t - k))] = [k ..< length t] @ [length t]"
    using assms by simp
  have "rmatch (Seq (Star any_char) (Cls (lit b))) t k c =
      concat (map (\<lambda>j. if j < length t \<and> t ! j = b then [(Suc j, c)] else [])
        (rev [k ..< length t]))"
    by (simp add: run_any_char up lit_def o_def del: upt_Suc cong: if_cong)
  also have "\<dots> = map (\<lambda>j. (Suc j, c)) (filter (\<lambda>j. j < length t \<and> t ! j = b) (rev [k ..< length t]))"
    by (rule concat_map_if)
  also have "filter (\<lambda>j. j < length t \<and> t ! j = b) (rev [k ..< length t]) =
      filter (\<lambda>j. t ! j = b) (rev [k ..< length t])"
    by (rule filter_cong) auto
  finally show ?thesis .
qed

lemma rmatch_span:
  "rmatch (re_span a b) t i c =
    (if i < length t \<and> t ! i = a
     then map (\<lambda>j. (Suc j, c)) (filter (\<lambda>j. t ! j = b) (rev [Suc i ..< length t]))
     else [])"
proof (cases "i < length t \<and> t ! i = a")
  case True
  then have le: "Suc i \<le> length t" by simp
  have hd: "rmatch (Cls (lit a)) t i c = [(Suc i, c)]"
    using True by (simp add: lit_def)
  have "rmatch (re_span a b) t i c =
      concat (map (\<lambda>jc. rmatch (Seq (Star any_char) (Cls (lit b))) t (fst jc) (snd jc))
        (rmatch (Cls (lit a)) t i c))"
    by (simp only: re_span_def seqs.simps rmatch.simps)
  also have "\<dots> = rmatch (Seq (Star any_char) (Cls (lit b))) t (Suc i) c"
    by (simp only: hd list.map concat.simps append_Nil2 fst_conv snd_conv)
  also have "\<dots> = map (\<lambda>j. (Suc j, c)) (filter (\<lambda>j. t ! j = b) (rev [Suc i ..< length t]))"
    by (rule rmatch_star_cls [OF le])
  finally show ?thesis using True by simp
next
  case False
  then show ?thesis by (auto simp: re_span_def lit_def)
qed

lemma scan_skip:
  "\<forall>x \<in> set xs. rmatch r t x [] = [] \<Longrightarrow> scan r t (xs @ ys) lo = scan r t ys lo"
  by (induction xs) auto

lemma scan_none: "\<forall>x \<in> set xs. rmatch r t x [] = [] \<Longrightarrow> scan r t xs lo = []"
  using scan_skip [of xs r t "[]" lo] by simp

lemma re_search_none:
  "(\<And>x. rmatch r t x [] = []) \<Longrightarrow> re_search r t = None"
  by (simp add: re_search_def re_finditer_def scan_none del: upt_Suc)

lemma re_search_first:
  assumes "i \<le> length t" and "\<And>x. x < i \<Longrightarrow> rmatch r t x [] = []"
    and "rmatch r t i [] = jc # rest"
  shows "re_search r t = Some (i, fst jc, snd jc)"
proof -
  have "[0 ..< Suc (length t)] = [0 ..< i] @ i # [Suc i ..< Suc (length t)]"
    using assms(1) by (intro upt_split) simp_all
  moreover have "\<forall>x \<in> set [0 ..< i]. rmatch r t x [] = []"
    using assms(2) by simp
  ultimately have "re_finditer r t = scan r t (i # [Suc i ..< Suc (length t)]) 0"
    unfolding re_finditer_def by (simp only: scan_skip)
  then show ?thesis using assms(3) by (simp add: re_search_def del: upt_Suc)
qed


lemma greedy_span_absent: "a \<notin> set t \<Longrightarrow> greedy_span a b t = None"
proof -
  assume "a \<notin> set t"
  then have e: "dropWhile (\<lambda>x. x \<noteq> a) t = []" by auto
  show ?thesis unfolding greedy_span_def by (simp only: e list.case)
qed

lemma dropWhile_first: "a \<notin> set pre \<Longrightarrow> dropWhile (\<lambda>x. x \<noteq> a) (pre @ a # u) = a # u"
  by (induction pre) auto

lemma greedy_span_open: "a \<notin> set pre \<Longrightarrow> b \<notin> set u \<Longrightarrow> greedy_span a b (pre @ a # u) = None"
  by (simp add: greedy_span_def dropWhile_first)

lemma greedy_span_closed:
  "a \<notin> set pre \<Longrightarrow> b \<notin> set w \<Longrightarrow>
     greedy_span a b (pre @ a # v @ b # w) = Some (a # v @ [b])"
proof -
  assume a: "a \<notin> set pre" and b: "b \<notin> set w"
  have "dropWhile (\<lambda>y. y \<noteq> b) (rev w @ b # rev v) = b # rev v"
    using b by (intro dropWhile_first) simp
  then show ?thesis using a by (simp add: greedy_span_def dropWhile_first)
qed

lemma search_span_absent:
  assumes "a \<notin> set t"
  shows "re_search (re_span a b) t = None"
proof (rule re_search_none)
  fix x
  show "rmatch (re_span a b) t x [] = []"
    using assms by (auto simp: rmatch_span)
qed

lemma search_span_open:
  assumes "a \<notin> set pre" and "b \<notin> set u"
  shows "re_search (re_span a b) (pre @ a # u) = None"
proof (rule re_search_none)
  fix x
  let ?t = "pre @ a # u"
  have "filter (\<lambda>j. ?t ! j = b) (rev [Suc x ..< length ?t]) = []"
    if "x < length ?t" and "?t ! x = a"
  proof -
    have "length pre \<le> x"
    proof (rule ccontr)
      assume "\<not> length pre \<le> x"
      then have "?t ! x \<in> set pre" by (simp add: nth_append)
      with that(2) assms(1) show False by simp
    qed
    have "?t ! j \<noteq> b" if j: "Suc x \<le> j" "j < length ?t" for j
    proof -
      have "?t ! j = u ! (j - Suc (length pre))"
        using j \<open>length pre \<le> x\<close> by (simp add: nth_append nth_Cons')
      moreover have "j - Suc (length pre) < length u" using j \<open>length pre \<le> x\<close> by simp
      ultimately have "?t ! j \<in> set u" by simp
      with assms(2) show ?thesis by auto
    qed
    then show ?thesis by (auto simp: filter_empty_conv simp del: upt_Suc)
  qed
  then show "rmatch (re_span a b) ?t x [] = []"
    by (simp add: rmatch_span)
qed

lemma search_span_closed:
  assumes "a \<notin> set pre" and "b \<notin> set w"
  shows "re_search (re_span a b) (pre @ a # v @ b # w) =
     Some (length pre, Suc (Suc (length pre + length v)), [])"
proof -
  let ?t = "pre @ a # v @ b # w"
  let ?i = "length pre"
  let ?j = "Suc (length pre + length v)"
  have before: "rmatch (re_span a b) ?t x [] = []" if "x < ?i" for x
  proof -
    have "?t ! x \<in> set pre" using that by (simp add: nth_append)
    with assms(1) have "?t ! x \<noteq> a" by auto
    then show ?thesis by (simp add: rmatch_span)
  qed
  have tj: "?t ! ?j = b"
    using nth_append_length [of "pre @ a # v" b w] by simp
  have after: "?t ! k \<noteq> b" if "?j < k" "k < length ?t" for k
  proof -
    have "?t ! k = w ! (k - Suc ?j)"
      using that nth_append [of "pre @ a # v" "b # w" k] by (simp add: nth_Cons')
    moreover have "k - Suc ?j < length w" using that by simp
    ultimately have "?t ! k \<in> set w" by simp
    with assms(2) show ?thesis by auto
  qed
  have "[Suc ?i ..< length ?t] = [Suc ?i ..< ?j] @ ?j # [Suc ?j ..< length ?t]"
    by (intro upt_split) simp_all
  then have "filter (\<lambda>k. ?t ! k = b) (rev [Suc ?i ..< length ?t]) =
      filter (\<lambda>k. ?t ! k = b) (rev [Suc ?j ..< length ?t])
      @ ?j # filter (\<lambda>k. ?t ! k = b) (rev [Suc ?i ..< ?j])"
    using tj by simp
  moreover have "filter (\<lambda>k. ?t ! k = b) (rev [Suc ?j ..< length ?t]) = []"
    using after by (auto simp: filter_empty_conv simp del: upt_Suc)
  ultimately have "filter (\<lambda>k. ?t ! k = b) (rev [Suc ?i ..< length ?t]) =
      ?j # filter (\<lambda>k. ?t ! k = b) (rev [Suc ?i ..< ?j])"
    by simp
  then have at: "rmatch (re_span a b) ?t ?i [] =
      (Suc ?j, []) # map (\<lambda>j. (Suc j, [])) (filter (\<lambda>k. ?t ! k = b) (rev [Suc ?i ..< ?j]))"
    by (simp add: rmatch_span)
  have "re_search (re_span a b) ?t = Some (?i, fst (Suc ?j, [] :: caps), snd (Suc ?j, [] :: caps))"
  proof (rule re_search_first)
    show "?i \<le> length ?t" by simp
    show "rmatch (re_span a b) ?t x [] = []" if "x < ?i" for x
      using that by (rule before)
    show "rmatch (re_span a b) ?t ?i [] =
      (Suc ?j, []) # map (\<lambda>j. (Suc j, [])) (filter (\<lambda>k. ?t ! k = b) (rev [Suc ?i ..< ?j]))"
      by (rule at)
  qed
  then show ?thesis by simp
qed

lemma search_span:
  "map_option (\<lambda>m. m_group t m 0) (re_search (re_span a b) t) = greedy_span a b t"
proof (cases "a \<in> set t")
  case False
  then show ?thesis by (simp add: search_span_absent greedy_span_absent)
next
  case True
  then obtain pre u where t: "t = pre @ a # u" and pre: "a \<notin> set pre"
    by (auto dest: split_list_first)
  show ?thesis
  proof (cases "b \<in> set u")
    case False
    then show ?thesis using pre by (simp add: t search_span_open greedy_span_open)
  next
    case True
    then obtain v w where u: "u = v @ b # w" and w: "b \<notin> set w"
      by (auto dest: split_list_last)
    have "m_group (pre @ a # v @ b # w) (length pre, Suc (Suc (length pre + length v)), []) 0
        = a # v @ [b]"
      by (simp add: m_group_def m_start_def m_end_def substr_def)
    then show ?thesis using pre w
      by (simp add: t u search_span_closed greedy_span_closed)
  qed
qed


lemma re_braces_span: "re_braces = re_span (CHR ''{'') (CHR ''}'')"
  by (simp add: re_braces_def re_span_def)

lemma re_brackets_span: "re_brackets = re_span (CHR ''['') (CHR '']'')"
  by (simp add: re_brackets_def re_span_def)

lemma bind_search_span:
  "Option.bind (re_search (re_span a b) t) (\<lambda>m. loads (m_group t m 0)) =
   Option.bind (greedy_span a b t) loads"
proof -
  have "Option.bind (re_search (re_span a b) t) (\<lambda>m. loads (m_group t m 0)) =
      Option.bind (map_option (\<lambda>m. m_group t m 0) (re_search (re_span a b) t)) loads"
    by (cases "re_search (re_span a b) t") simp_all
  then show ?thesis by (simp only: search_span)
qed

text \<open>
  Claim C3, amended. Extraction first decodes the whole stripped text; if that fails, the
  text from the first opening brace to the last closing brace after it; if that fails or
  there is none, the text from the first opening bracket to the last closing bracket
  after it; the first value decoded is returned, and \<^verbatim>\<open>None\<close> when nothing decodes. In
  particular, when the stripped text is an object between a text without opening brace
  and a text without closing brace, and does not decode as a whole, the decoded object is
  the value returned.
\<close>

theorem extract_json_obj_attempts:
  "extract_json_obj loads text =
    (if text = [] then JNull
     else (case loads (py_strip text) of
         Some v \<Rightarrow> v
       | None \<Rightarrow>
          (case Option.bind (greedy_span (CHR ''{'') (CHR ''}'') (py_strip text)) loads of
             Some v \<Rightarrow> v
           | None \<Rightarrow>
              (case Option.bind (greedy_span (CHR ''['') (CHR '']'') (py_strip text)) loads of
                 Some v \<Rightarrow> v
               | None \<Rightarrow> JNull))))
   \<and> (\<forall>pre mid post v. text \<noteq> []
        \<and> py_strip text = pre @ CHR ''{'' # mid @ CHR ''}'' # post
        \<and> CHR ''{'' \<notin> set pre \<and> CHR ''}'' \<notin> set post
        \<and> loads (py_strip text) = None \<and> loads (CHR ''{'' # mid @ ''}'') = Some v
      \<longrightarrow> extract_json_obj loads text = v)"
proof -
  have a: "extract_json_obj loads text =
    (if text = [] then JNull
     else (case loads (py_strip text) of
         Some v \<Rightarrow> v
       | None \<Rightarrow>
          (case Option.bind (greedy_span (CHR ''{'') (CHR ''}'') (py_strip text)) loads of
             Some v \<Rightarrow> v
           | None \<Rightarrow>
              (case Option.bind (greedy_span (CHR ''['') (CHR '']'') (py_strip text)) loads of
                 Some v \<Rightarrow> v
               | None \<Rightarrow> JNull))))"
    unfolding extract_json_obj_def Let_def re_braces_span re_brackets_span bind_search_span
    by simp
  have b: "extract_json_obj loads text = v"
    if "text \<noteq> []" "py_strip text = pre @ CHR ''{'' # mid @ CHR ''}'' # post"
      "CHR ''{'' \<notin> set pre" "CHR ''}'' \<notin> set post"
      "loads (py_strip text) = None" "loads (CHR ''{'' # mid @ ''}'') = Some v"
    for pre mid post v
  proof -
    have "greedy_span (CHR ''{'') (CHR ''}'') (py_strip text) = Some (CHR ''{'' # mid @ ''}'')"
      using greedy_span_closed [OF that(3) that(4), of mid] by (simp only: that(2))
    then show ?thesis using that(1,5,6) by (simp add: a)
  qed
  show ?thesis using a b by blast
qed

theorem extract_json_obj_attempts_counterexample:
  "extract_json_obj loads_sample ''{} and {}'' = JNull \<and> loads_sample ''{}'' = Some (JDict [])"
  by code_simp

theorem extract_json_obj_attempts_witness:
  "extract_json_obj loads_sample ''Sure: {} done.'' = JDict []"
proof -
  have l: "loads_sample (py_strip ''Sure: {} done.'') = None"
    by code_simp
  have g: "greedy_span (CHR ''{'') (CHR ''}'') (py_strip ''Sure: {} done.'') = Some ''{}''"
    by code_simp
  show ?thesis
    using extract_json_obj_attempts [of loads_sample "''Sure: {} done.''"]
    by (simp add: l g loads_sample_def)
qed


end
